theory Spec2Isabelle
  imports Complex_Main "HOL-Library.Sublist"
begin

section \<open>Python strings\<close>

text \<open>
  A Python \<open>str\<close> is a sequence of Unicode code points; it is modelled as a list of
  natural numbers, one per code point. \<open>S\<close> turns an ASCII literal of the theory into
  such a string.
\<close>

type_synonym pystr = "nat list"

definition S :: "string \<Rightarrow> pystr" where
  "S cs = map of_char cs"

definition NL :: nat where
  "NL = 10"

text \<open>
  \<open>str.isspace\<close> on one code point, as \<open>str.strip()\<close> with no argument uses it:
  the code points of bidirectional type WS, B or S, or of category Zs.
\<close>

definition py_isspace :: "nat \<Rightarrow> bool" where
  "py_isspace c \<longleftrightarrow>
     (9 \<le> c \<and> c \<le> 13) \<or> (28 \<le> c \<and> c \<le> 32) \<or> c = 133 \<or> c = 160 \<or> c = 5760 \<or>
     (8192 \<le> c \<and> c \<le> 8202) \<or> c = 8232 \<or> c = 8233 \<or> c = 8239 \<or> c = 8287 \<or> c = 12288"

definition py_strip :: "pystr \<Rightarrow> pystr" where
  "py_strip s = rev (dropWhile py_isspace (rev (dropWhile py_isspace s)))"

text \<open>
  \<open>str.upper()\<close> maps every code point through the full upper-case mapping of the
  Unicode database, which may give several code points for one. On ASCII the mapping is
  written out; beyond ASCII it is the table \<open>tbl\<close>, a parameter of the model.
\<close>

definition toupper_full :: "(nat \<Rightarrow> pystr) \<Rightarrow> nat \<Rightarrow> pystr" where
  "toupper_full tbl c =
     (if 97 \<le> c \<and> c \<le> 122 then [c - 32] else if c < 128 then [c] else tbl c)"

definition py_upper :: "(nat \<Rightarrow> pystr) \<Rightarrow> pystr \<Rightarrow> pystr" where
  "py_upper tbl s = concat (map (toupper_full tbl) s)"

text \<open>The table that leaves every code point beyond ASCII as it is.\<close>

definition ascii_only_table :: "nat \<Rightarrow> pystr" where
  "ascii_only_table c = [c]"

text \<open>\<open>sep.join(xs)\<close>.\<close>

fun py_join :: "pystr \<Rightarrow> pystr list \<Rightarrow> pystr" where
  "py_join sep [] = []"
| "py_join sep [x] = x"
| "py_join sep (x # y # ys) = x @ sep @ py_join sep (y # ys)"

text \<open>\<open>sub in s\<close> on strings: \<open>sub\<close> occurs in \<open>s\<close> as a contiguous run.\<close>

fun py_startswith :: "pystr \<Rightarrow> pystr \<Rightarrow> bool" where
  "py_startswith s [] = True"
| "py_startswith [] (p # ps) = False"
| "py_startswith (c # cs) (p # ps) = (c = p \<and> py_startswith cs ps)"

fun py_in :: "pystr \<Rightarrow> pystr \<Rightarrow> bool" where
  "py_in sub [] = (sub = [])"
| "py_in sub (c # cs) = (py_startswith (c # cs) sub \<or> py_in sub cs)"

text \<open>Decimal digits of a natural number, and \<open>str(n)\<close> of an integer.\<close>

fun digits :: "nat \<Rightarrow> pystr" where
  "digits n = (if n < 10 then [48 + n] else digits (n div 10) @ [48 + n mod 10])"

declare digits.simps [simp del]

definition py_str_int :: "int \<Rightarrow> pystr" where
  "py_str_int i = (if i < 0 then 45 # digits (nat (- i)) else digits (nat i))"

text \<open>The format \<open>%0wd\<close> on a number that is not negative.\<close>

definition zero_pad :: "nat \<Rightarrow> nat \<Rightarrow> pystr" where
  "zero_pad w n = replicate (w - length (digits n)) 48 @ digits n"

section \<open>Dates\<close>

text \<open>
  The value of \<open>datetime.utcnow()\<close>: a naive date and time. \<open>isoformat\<close> is
  \<open>datetime.isoformat()\<close> with its default arguments: the fraction is printed only
  when the microseconds are not zero, and a naive value prints no offset.
\<close>

record datetime =
  year :: nat
  month :: nat
  day :: nat
  hour :: nat
  minute :: nat
  second :: nat
  microsecond :: nat

definition isoformat :: "datetime \<Rightarrow> pystr" where
  "isoformat d =
     zero_pad 4 (year d) @ S ''-'' @ zero_pad 2 (month d) @ S ''-'' @ zero_pad 2 (day d) @
     S ''T'' @ zero_pad 2 (hour d) @ S '':'' @ zero_pad 2 (minute d) @ S '':'' @
     zero_pad 2 (second d) @
     (if microsecond d \<noteq> 0 then S ''.'' @ zero_pad 6 (microsecond d) else [])"

section \<open>The demo transform: src/process.py\<close>

text \<open>
  Iterating over a text file gives its lines, each with its terminator; the last line
  has none when the file does not end in a newline. The text is the decoded content of
  the file after Python's newline translation.
\<close>

fun iter_lines :: "pystr \<Rightarrow> pystr \<Rightarrow> pystr list" where
  "iter_lines cur [] = (if cur = [] then [] else [cur])"
| "iter_lines cur (c # cs) =
     (if c = NL then (cur @ [c]) # iter_lines [] cs else iter_lines (cur @ [c]) cs)"

definition rstrip_newline :: "pystr \<Rightarrow> pystr" where
  "rstrip_newline l = rev (dropWhile (\<lambda>c. c = NL) (rev l))"

text \<open>\<open>read_input\<close>: the input file is \<open>None\<close> when it does not exist.\<close>

definition read_input :: "pystr option \<Rightarrow> pystr list" where
  "read_input f =
     (case f of None \<Rightarrow> [] | Some text \<Rightarrow> map rstrip_newline (iter_lines [] text))"

definition transform :: "(nat \<Rightarrow> pystr) \<Rightarrow> pystr list \<Rightarrow> pystr list" where
  "transform tbl lines = map (py_upper tbl) (filter (\<lambda>line. py_strip line \<noteq> []) lines)"

text \<open>
  \<open>write_output\<close> opens the output file for writing, which empties it, and writes the
  header and the body: the value is the new content of the file. \<open>now\<close> is what
  \<open>datetime.utcnow()\<close> returns.
\<close>

definition write_output :: "datetime \<Rightarrow> pystr list \<Rightarrow> pystr" where
  "write_output now transformed =
     (S ''# Generated at '' @ (isoformat now @ S ''Z'') @ [NL]) @
     (if transformed \<noteq> [] then py_join [NL] transformed @ [NL] else S ''NO_INPUT'' @ [NL])"

text \<open>
  \<open>main\<close>. The files and the clock are the state the script runs in; an operating-system
  error at one of its three steps (creating the directory, reading, writing) is the text
  of the exception raised there. The script returns its exit status, the files and the
  line it prints (on standard output when it returns 0, on standard error otherwise).
  A write that fails is one that cannot open the file, which then stays as it was.
  \<open>out_path\<close> is \<open>str(OUTPUT_FILE)\<close>.
\<close>

record files =
  input_file :: "pystr option"
  output_file :: "pystr option"

record process_env =
  upper_table :: "nat \<Rightarrow> pystr"
  utcnow :: datetime
  mkdir_error :: "pystr option"
  read_error :: "pystr option"
  write_error :: "pystr option"

definition main :: "process_env \<Rightarrow> pystr \<Rightarrow> files \<Rightarrow> int \<times> files \<times> pystr" where
  "main env out_path fs =
     (case mkdir_error env of
        Some e \<Rightarrow> (2, fs, S ''Error in process.py: '' @ e)
      | None \<Rightarrow>
          (case (if input_file fs = None then None else read_error env) of
             Some e \<Rightarrow> (2, fs, S ''Error in process.py: '' @ e)
           | None \<Rightarrow>
               (let lines = read_input (input_file fs);
                    transformed = transform (upper_table env) lines
                in case write_error env of
                     Some e \<Rightarrow> (2, fs, S ''Error in process.py: '' @ e)
                   | None \<Rightarrow>
                       (0, fs\<lparr>output_file := Some (write_output (utcnow env) transformed)\<rparr>,
                        S ''Wrote '' @ out_path @ S '' (lines: '' @
                          py_str_int (int (length transformed)) @ S '')''))))"

text \<open>What follows the first line of a text: everything after its first newline.\<close>

definition first_line :: "pystr \<Rightarrow> pystr" where
  "first_line text = takeWhile (\<lambda>c. c \<noteq> NL) text"

definition after_first_line :: "pystr \<Rightarrow> pystr" where
  "after_first_line text = drop 1 (dropWhile (\<lambda>c. c \<noteq> NL) text)"

text \<open>A line that is empty or holds white space only.\<close>

definition blank :: "pystr \<Rightarrow> bool" where
  "blank line = list_all py_isspace line"

text \<open>A text made of the given lines, each ended by a newline.\<close>

definition unlines :: "pystr list \<Rightarrow> pystr" where
  "unlines ls = concat (map (\<lambda>l. l @ [NL]) ls)"

text \<open>The header line of the output file for a given time.\<close>

definition header_line :: "datetime \<Rightarrow> pystr" where
  "header_line now = S ''# Generated at '' @ isoformat now @ S ''Z''"

text \<open>The files after one run of the script, and after two runs one after the other.\<close>

definition run_once :: "process_env \<Rightarrow> pystr \<Rightarrow> files \<Rightarrow> files" where
  "run_once env out_path fs = fst (snd (main env out_path fs))"

section \<open>Values exchanged with the outside\<close>

text \<open>
  A parsed JSON value, as \<open>json.loads\<close> and \<open>Response.json()\<close> give it: \<open>JNull\<close> is
  Python's \<open>None\<close>, an object is a \<open>dict\<close> (its items in insertion order), and a
  float that is not finite (the parser accepts \<open>NaN\<close> and \<open>Infinity\<close>) is \<open>JFloat None\<close>.
\<close>

datatype json =
    JNull
  | JBool bool
  | JInt int
  | JFloat "real option"
  | JStr pystr
  | JArr "json list"
  | JObj "(pystr \<times> json) list"

text \<open>The truth value of a parsed JSON value in a condition (\<open>if existing:\<close>).\<close>

fun py_bool :: "json \<Rightarrow> bool" where
  "py_bool JNull = False"
| "py_bool (JBool b) = b"
| "py_bool (JInt i) = (i \<noteq> 0)"
| "py_bool (JFloat x) = (x \<noteq> Some 0)"
| "py_bool (JStr s) = (s \<noteq> [])"
| "py_bool (JArr xs) = (xs \<noteq> [])"
| "py_bool (JObj kvs) = (kvs \<noteq> [])"

text \<open>The exceptions of the model, each with the text it carries.\<close>

datatype pyerr =
    RuntimeError pystr
  | SystemExit pystr
  | HTTPError int
  | JSONDecodeError
  | AttributeError
  | UnicodeEncodeError
  | KeyboardInterrupt
  | ExternalError pystr

text \<open>What \<open>except Exception\<close> catches: everything but the exits of the interpreter.\<close>

fun is_Exception :: "pyerr \<Rightarrow> bool" where
  "is_Exception (SystemExit m) = False"
| "is_Exception KeyboardInterrupt = False"
| "is_Exception e = True"

text \<open>
  \<open>value.get(key)\<close> on a parsed JSON value: a \<open>dict\<close> answers with the value or
  \<open>None\<close>; the other values have no such method.
\<close>

fun py_get :: "json \<Rightarrow> pystr \<Rightarrow> pyerr + json" where
  "py_get (JObj kvs) k = Inr (case map_of kvs k of None \<Rightarrow> JNull | Some v \<Rightarrow> v)"
| "py_get j k = Inl AttributeError"

record CompletedProcess =
  returncode :: int
  stdout :: pystr
  stderr :: pystr

text \<open>
  An HTTP response: its status, its body as text, and what \<open>Response.json()\<close> returns
  (\<open>None\<close> when the body is not JSON and the call raises).
\<close>

record response =
  status_code :: int
  resp_text :: pystr
  resp_json :: "json option"

text \<open>
  What a run does to the outside, in order: processes started (argument vector and
  working directory), directory trees removed, files written, HTTP requests sent (URL,
  headers, and query parameters or the payload that \<open>json.dumps\<close> serialises), prompts.
\<close>

datatype event =
    Subprocess "pystr list" "pystr option"
  | Rmtree pystr
  | WriteText pystr pystr
  | HttpGet pystr "(pystr \<times> pystr) list" "(pystr \<times> pystr) list"
  | HttpPost pystr "(pystr \<times> pystr) list" json
  | HttpPut pystr "(pystr \<times> pystr) list" json
  | Getpass pystr

fun is_put :: "event \<Rightarrow> bool" where
  "is_put (HttpPut url headers payload) = True"
| "is_put e = False"

text \<open>
  The outside: how it answers each call, given everything the run did before. A call of
  a library that raises (the program is missing, the network is down) answers \<open>Inl\<close>.
  \<open>path_str p\<close> is \<open>str(Path(p))\<close>, \<open>path_join d n\<close> is \<open>str(Path(d) / n)\<close> and
  \<open>json_str j\<close> is \<open>str(j)\<close> of a parsed JSON value: functions of the Python library
  that the model takes as they are.
\<close>

record env =
  subprocess_run :: "event list \<Rightarrow> pystr list \<Rightarrow> pystr option \<Rightarrow> pyerr + CompletedProcess"
  requests_get ::
    "event list \<Rightarrow> pystr \<Rightarrow> (pystr \<times> pystr) list \<Rightarrow> (pystr \<times> pystr) list \<Rightarrow> pyerr + response"
  requests_post :: "event list \<Rightarrow> pystr \<Rightarrow> (pystr \<times> pystr) list \<Rightarrow> json \<Rightarrow> pyerr + response"
  requests_put :: "event list \<Rightarrow> pystr \<Rightarrow> (pystr \<times> pystr) list \<Rightarrow> json \<Rightarrow> pyerr + response"
  path_exists :: "event list \<Rightarrow> pystr \<Rightarrow> bool"
  rmtree_error :: "event list \<Rightarrow> pystr \<Rightarrow> pyerr option"
  write_text_error :: "event list \<Rightarrow> pystr \<Rightarrow> pystr \<Rightarrow> pyerr option"
  clock :: "event list \<Rightarrow> datetime"
  environ_get :: "pystr \<Rightarrow> pystr option"
  getpass_result :: "event list \<Rightarrow> pystr \<Rightarrow> pyerr + pystr"
  path_str :: "pystr \<Rightarrow> pystr"
  path_join :: "pystr \<Rightarrow> pystr \<Rightarrow> pystr"
  json_str :: "json \<Rightarrow> pystr"

text \<open>
  A computation takes the events so far and returns a value or the exception raised,
  with the events extended by what it did.
\<close>

type_synonym 'a io = "event list \<Rightarrow> (pyerr + 'a) \<times> event list"

definition io_return :: "'a \<Rightarrow> 'a io" where
  "io_return x h = (Inr x, h)"

definition io_raise :: "pyerr \<Rightarrow> 'a io" where
  "io_raise e h = (Inl e, h)"

definition io_bind :: "'a io \<Rightarrow> ('a \<Rightarrow> 'b io) \<Rightarrow> 'b io" where
  "io_bind m f h = (case m h of (Inl e, h') \<Rightarrow> (Inl e, h') | (Inr x, h') \<Rightarrow> f x h')"

definition io_lift :: "pyerr + 'a \<Rightarrow> 'a io" where
  "io_lift r h = (r, h)"

definition io_subprocess :: "env \<Rightarrow> pystr list \<Rightarrow> pystr option \<Rightarrow> CompletedProcess io" where
  "io_subprocess e cmd cwd h = (subprocess_run e h cmd cwd, h @ [Subprocess cmd cwd])"

definition io_get ::
  "env \<Rightarrow> pystr \<Rightarrow> (pystr \<times> pystr) list \<Rightarrow> (pystr \<times> pystr) list \<Rightarrow> response io" where
  "io_get e url headers params h = (requests_get e h url headers params, h @ [HttpGet url headers params])"

definition io_post :: "env \<Rightarrow> pystr \<Rightarrow> (pystr \<times> pystr) list \<Rightarrow> json \<Rightarrow> response io" where
  "io_post e url headers payload h = (requests_post e h url headers payload, h @ [HttpPost url headers payload])"

definition io_put :: "env \<Rightarrow> pystr \<Rightarrow> (pystr \<times> pystr) list \<Rightarrow> json \<Rightarrow> response io" where
  "io_put e url headers payload h = (requests_put e h url headers payload, h @ [HttpPut url headers payload])"

definition io_rmtree :: "env \<Rightarrow> pystr \<Rightarrow> unit io" where
  "io_rmtree e p h =
     ((case rmtree_error e h p of Some err \<Rightarrow> Inl err | None \<Rightarrow> Inr ()), h @ [Rmtree p])"

definition io_write_text :: "env \<Rightarrow> pystr \<Rightarrow> pystr \<Rightarrow> unit io" where
  "io_write_text e p content h =
     ((case write_text_error e h p content of Some err \<Rightarrow> Inl err | None \<Rightarrow> Inr ()),
      h @ [WriteText p content])"

definition io_getpass :: "env \<Rightarrow> pystr \<Rightarrow> pystr io" where
  "io_getpass e prompt h = (getpass_result e h prompt, h @ [Getpass prompt])"

text \<open>\<open>Response.json()\<close>.\<close>

definition response_json :: "response \<Rightarrow> pyerr + json" where
  "response_json r = (case resp_json r of None \<Rightarrow> Inl JSONDecodeError | Some j \<Rightarrow> Inr j)"

section \<open>The notebook helper: colab/colab_helper.py\<close>

definition run_cmd :: "env \<Rightarrow> pystr list \<Rightarrow> pystr option \<Rightarrow> bool \<Rightarrow> CompletedProcess io" where
  "run_cmd e cmd cwd check =
     io_bind (io_subprocess e cmd cwd) (\<lambda>proc.
       if check \<and> returncode proc \<noteq> 0
       then io_raise (RuntimeError
              (S ''Command failed: '' @ py_join (S '' '') cmd @ [NL] @ stderr proc))
       else io_return proc)"

definition configure_git :: "env \<Rightarrow> pystr \<Rightarrow> pystr \<Rightarrow> unit io" where
  "configure_git e user_name user_email =
     io_bind (run_cmd e [S ''git'', S ''config'', S ''--global'', S ''user.name'', user_name]
                None True) (\<lambda>_.
     io_bind (run_cmd e [S ''git'', S ''config'', S ''--global'', S ''user.email'', user_email]
                None True) (\<lambda>_.
     io_return ()))"

text \<open>A path is modelled by its string, \<open>str(Path(...))\<close>.\<close>

definition clone_repo :: "env \<Rightarrow> pystr \<Rightarrow> pystr \<Rightarrow> pystr \<Rightarrow> pystr option \<Rightarrow> pystr io" where
  "clone_repo e username repo token dest =
     (let dest1 = (case dest of None \<Rightarrow> S ''/content/'' @ repo | Some d \<Rightarrow> d);
          dest_path = path_str e dest1
      in io_bind (\<lambda>h. if path_exists e h dest_path then io_rmtree e dest_path h
                       else io_return () h) (\<lambda>_.
         let clone_url = S ''https://'' @ username @ S '':'' @ token @ S ''@github.com/'' @
                         username @ S ''/'' @ repo @ S ''.git''
         in io_bind (run_cmd e [S ''git'', S ''clone'', clone_url, dest_path] None True) (\<lambda>_.
            io_return dest_path)))"

definition set_remote_with_token :: "env \<Rightarrow> pystr \<Rightarrow> pystr \<Rightarrow> pystr \<Rightarrow> pystr \<Rightarrow> unit io" where
  "set_remote_with_token e repo_dir username repo token =
     (let push_url = S ''https://'' @ username @ S '':'' @ token @ S ''@github.com/'' @
                     username @ S ''/'' @ repo @ S ''.git''
      in io_bind (run_cmd e [S ''git'', S ''remote'', S ''set-url'', S ''origin'', push_url]
                    (Some repo_dir) True) (\<lambda>_.
         io_return ()))"

definition create_branch :: "env \<Rightarrow> pystr \<Rightarrow> pystr \<Rightarrow> unit io" where
  "create_branch e repo_dir branch =
     io_bind (run_cmd e [S ''git'', S ''checkout'', S ''-b'', branch] (Some repo_dir) True) (\<lambda>_.
     io_return ())"

text \<open>
  \<open>commit_changes\<close>. \<open>paths\<close> is \<open>None\<close> or a list; \<open>if paths\<close> holds for a list that
  is not empty. The \<open>try\<close> catches a \<open>RuntimeError\<close> only, and \<open>str(e)\<close> is its text.
\<close>

definition commit_changes :: "env \<Rightarrow> pystr \<Rightarrow> pystr \<Rightarrow> pystr list option \<Rightarrow> bool io" where
  "commit_changes e repo_dir message paths =
     io_bind (case paths of
                Some (p # ps) \<Rightarrow> run_cmd e ([S ''git'', S ''add''] @ (p # ps)) (Some repo_dir) True
              | _ \<Rightarrow> run_cmd e [S ''git'', S ''add'', S ''-A''] (Some repo_dir) True) (\<lambda>_.
     (\<lambda>h. case run_cmd e [S ''git'', S ''commit'', S ''-m'', message] (Some repo_dir) True h of
             (Inr _, h') \<Rightarrow> (Inr True, h')
           | (Inl (RuntimeError err), h') \<Rightarrow>
               if py_in (S ''nothing to commit'') err \<or>
                  py_in (S ''no changes added to commit'') err
               then (Inr False, h')
               else (Inl (RuntimeError err), h')
           | (Inl other, h') \<Rightarrow> (Inl other, h')))"

definition push_branch :: "env \<Rightarrow> pystr \<Rightarrow> pystr \<Rightarrow> bool \<Rightarrow> unit io" where
  "push_branch e repo_dir branch set_upstream =
     (let cmd = [S ''git'', S ''push''] @
                (if set_upstream then [S ''--set-upstream'', S ''origin'', branch]
                 else [S ''origin'', branch])
      in io_bind (run_cmd e cmd (Some repo_dir) True) (\<lambda>_. io_return ()))"

definition create_pull_request ::
  "env \<Rightarrow> pystr \<Rightarrow> pystr \<Rightarrow> pystr \<Rightarrow> pystr \<Rightarrow> pystr \<Rightarrow> pystr \<Rightarrow> pystr \<Rightarrow> json io" where
  "create_pull_request e username repo token head base title body =
     (let url = S ''https://api.github.com/repos/'' @ username @ S ''/'' @ repo @ S ''/pulls'';
          headers = [(S ''Authorization'', S ''token '' @ token),
                     (S ''Accept'', S ''application/vnd.github.v3+json'')];
          payload = JObj [(S ''title'', JStr title), (S ''head'', JStr head),
                          (S ''base'', JStr base), (S ''body'', JStr body)]
      in io_bind (io_post e url headers payload) (\<lambda>resp.
         if status_code resp \<noteq> 200 \<and> status_code resp \<noteq> 201
         then io_raise (RuntimeError (S ''Failed to create PR: '' @
                py_str_int (status_code resp) @ S '' '' @ resp_text resp))
         else io_lift (response_json resp)))"

text \<open>The dictionary \<open>safe_colab_update\<close> returns.\<close>

record UpdateResult =
  res_repo_dir :: pystr
  res_branch :: pystr
  res_commit_made :: bool
  res_pr_url :: json

text \<open>
  \<open>safe_colab_update\<close>. The defaults of \<open>branch\<close> and \<open>base\<close> are those of the call
  (\<open>colab/auto-update\<close> and \<open>main\<close>); \<open>commit_message\<close> and \<open>repo_dest\<close> may be
  \<open>None\<close>. The \<open>finally\<close> clause does nothing.
\<close>

definition safe_colab_update ::
  "env \<Rightarrow> pystr \<Rightarrow> pystr \<Rightarrow> pystr \<Rightarrow> pystr \<Rightarrow> pystr \<Rightarrow> pystr option \<Rightarrow> pystr option
     \<Rightarrow> UpdateResult io" where
  "safe_colab_update e username repo token branch base commit_message repo_dest =
     io_bind (\<lambda>h. io_return
                (case commit_message of
                   None \<Rightarrow> S ''Colab: automated update at '' @ isoformat (clock e h) @ S ''Z''
                 | Some m \<Rightarrow> m) h) (\<lambda>message.
     io_bind (clone_repo e username repo token repo_dest) (\<lambda>repo_dir.
     io_bind (configure_git e username (username @ S ''@users.noreply.github.com'')) (\<lambda>_.
     io_bind (create_branch e repo_dir branch) (\<lambda>_.
     let demo_file = path_join e repo_dir (S ''colab_update.txt'')
     in
     io_bind (\<lambda>h. io_write_text e demo_file
                (S ''Updated from Colab at '' @ isoformat (clock e h) @ S ''Z'' @ [NL]) h) (\<lambda>_.
     io_bind (commit_changes e repo_dir message (Some [demo_file])) (\<lambda>commit_made.
     io_bind (set_remote_with_token e repo_dir username repo token) (\<lambda>_.
     io_bind (push_branch e repo_dir branch True) (\<lambda>_.
     io_bind (create_pull_request e username repo token branch base message
                (S ''Automated PR created from Colab.'')) (\<lambda>pr.
     io_bind (io_lift (py_get pr (S ''html_url''))) (\<lambda>pr_url.
     io_return \<lparr>res_repo_dir = repo_dir, res_branch = branch,
                res_commit_made = commit_made, res_pr_url = pr_url\<rparr>))))))))))"

section \<open>The content publisher: scripts/create_github_file.py\<close>

subsection \<open>\<open>urllib.parse.quote_plus\<close> and \<open>base64.b64encode\<close>\<close>

text \<open>
  The UTF-8 bytes of one code point; a surrogate has none (the encoder is strict).
\<close>

definition utf8_bytes :: "nat \<Rightarrow> nat list option" where
  "utf8_bytes c =
     (if c < 128 then Some [c]
      else if c < 2048 then Some [192 + c div 64, 128 + c mod 64]
      else if 55296 \<le> c \<and> c \<le> 57343 then None
      else if c < 65536 then Some [224 + c div 4096, 128 + (c div 64) mod 64, 128 + c mod 64]
      else if c < 1114112
        then Some [240 + c div 262144, 128 + (c div 4096) mod 64, 128 + (c div 64) mod 64,
                   128 + c mod 64]
      else None)"

fun utf8_encode :: "pystr \<Rightarrow> nat list option" where
  "utf8_encode [] = Some []"
| "utf8_encode (c # cs) =
     (case utf8_bytes c of
        None \<Rightarrow> None
      | Some bs \<Rightarrow> (case utf8_encode cs of None \<Rightarrow> None | Some rest \<Rightarrow> Some (bs @ rest)))"

text \<open>The bytes \<open>quote\<close> never escapes: letters, digits and \<open>_.-~\<close>.\<close>

definition always_safe :: "nat \<Rightarrow> bool" where
  "always_safe b \<longleftrightarrow>
     (65 \<le> b \<and> b \<le> 90) \<or> (97 \<le> b \<and> b \<le> 122) \<or> (48 \<le> b \<and> b \<le> 57) \<or>
     b = 95 \<or> b = 46 \<or> b = 45 \<or> b = 126"

definition hex_digit :: "nat \<Rightarrow> nat" where
  "hex_digit n = (if n < 10 then 48 + n else 55 + n)"

definition quote_byte :: "nat list \<Rightarrow> nat \<Rightarrow> pystr" where
  "quote_byte safe b =
     (if always_safe b \<or> b \<in> set safe then [b]
      else [37, hex_digit (b div 16), hex_digit (b mod 16)])"

definition quote :: "pystr \<Rightarrow> nat list \<Rightarrow> pyerr + pystr" where
  "quote string safe =
     (if string = [] then Inr string
      else case utf8_encode string of
             None \<Rightarrow> Inl UnicodeEncodeError
           | Some bs \<Rightarrow> Inr (concat (map (quote_byte safe) bs)))"

definition quote_plus :: "pystr \<Rightarrow> pyerr + pystr" where
  "quote_plus string =
     (if 32 \<notin> set string then quote string []
      else case quote string [32] of
             Inl err \<Rightarrow> Inl err
           | Inr q \<Rightarrow> Inr (map (\<lambda>c. if c = 32 then 43 else c) q))"

definition b64_char :: "nat \<Rightarrow> nat" where
  "b64_char n =
     (if n < 26 then 65 + n else if n < 52 then 71 + n else if n < 62 then n - 4
      else if n = 62 then 43 else 47)"

fun b64encode :: "nat list \<Rightarrow> pystr" where
  "b64encode [] = []"
| "b64encode [a] = [b64_char (a div 4), b64_char ((a mod 4) * 16), 61, 61]"
| "b64encode [a, b] =
     [b64_char (a div 4), b64_char ((a mod 4) * 16 + b div 16), b64_char ((b mod 16) * 4), 61]"
| "b64encode (a # b # c # rest) =
     [b64_char (a div 4), b64_char ((a mod 4) * 16 + b div 16),
      b64_char ((b mod 16) * 4 + c div 64), b64_char (c mod 64)] @ b64encode rest"

subsection \<open>The script\<close>

text \<open>
  The functions of the script; its \<open>main\<close> only parses the command line, reads the
  content and calls \<open>create_or_update_file\<close>, with \<open>--force\<close> as \<open>force_update\<close>.
\<close>

definition API_BASE :: pystr where
  "API_BASE = S ''https://api.github.com''"

text \<open>
  \<open>get_token\<close> returns a string or \<open>None\<close>: the stripped environment variable when it
  is set and not empty, else the stripped answer to the prompt, \<open>None\<close> when the prompt
  raises an \<open>Exception\<close>.
\<close>

definition get_token :: "env \<Rightarrow> pystr option io" where
  "get_token e =
     (case environ_get e (S ''GITHUB_TOKEN'') of
        Some (c # cs) \<Rightarrow> io_return (Some (py_strip (c # cs)))
      | _ \<Rightarrow>
          (\<lambda>h. case io_getpass e
                      (S ''GitHub Personal Access Token (used only in this session): '') h of
                  (Inr answer, h') \<Rightarrow> (Inr (Some (py_strip answer)), h')
                | (Inl err, h') \<Rightarrow> if is_Exception err then (Inr None, h') else (Inl err, h')))"

text \<open>
  \<open>Response.raise_for_status()\<close> raises for a status from 400 to 599 and returns
  otherwise.
\<close>

definition raise_for_status :: "response \<Rightarrow> unit io" where
  "raise_for_status r =
     (if 400 \<le> status_code r \<and> status_code r < 600 then io_raise (HTTPError (status_code r))
      else io_return ())"

text \<open>
  \<open>file_exists\<close> returns the parsed body, or \<open>None\<close> (\<open>JNull\<close>); a function that
  reaches its end returns \<open>None\<close>. \<open>branch\<close> is \<open>None\<close> or a string.
\<close>

definition file_exists ::
  "env \<Rightarrow> pystr \<Rightarrow> pystr \<Rightarrow> pystr \<Rightarrow> pystr option \<Rightarrow> (pystr \<times> pystr) list \<Rightarrow> json io" where
  "file_exists e owner repo path branch headers =
     io_bind (io_lift (quote_plus path)) (\<lambda>quoted.
     let url = API_BASE @ S ''/repos/'' @ owner @ S ''/'' @ repo @ S ''/contents/'' @ quoted;
         params = (case branch of Some (c # cs) \<Rightarrow> [(S ''ref'', c # cs)] | _ \<Rightarrow> [])
     in io_bind (io_get e url headers params) (\<lambda>r.
        if status_code r = 200 then io_lift (response_json r)
        else if status_code r = 404 then io_return JNull
        else io_bind (raise_for_status r) (\<lambda>_. io_return JNull)))"

definition create_or_update_file ::
  "env \<Rightarrow> pystr \<Rightarrow> pystr \<Rightarrow> pystr \<Rightarrow> nat list \<Rightarrow> pystr \<Rightarrow> pystr option \<Rightarrow> bool \<Rightarrow> json io" where
  "create_or_update_file e owner repo path content_bytes message branch force_update =
     io_bind (get_token e) (\<lambda>token_opt.
     case token_opt of
       None \<Rightarrow> io_raise (SystemExit (S ''No GitHub token provided.''))
     | Some [] \<Rightarrow> io_raise (SystemExit (S ''No GitHub token provided.''))
     | Some (t # ts) \<Rightarrow>
         (let token = t # ts;
              headers = [(S ''Authorization'', S ''token '' @ token),
                         (S ''Accept'', S ''application/vnd.github.v3+json'')]
          in io_bind (io_lift (quote_plus path)) (\<lambda>quoted.
             let url = API_BASE @ S ''/repos/'' @ owner @ S ''/'' @ repo @ S ''/contents/'' @ quoted;
                 encoded = b64encode content_bytes;
                 payload = [(S ''message'', JStr message), (S ''content'', JStr encoded)] @
                           (case branch of Some (c # cs) \<Rightarrow> [(S ''branch'', JStr (c # cs))]
                            | _ \<Rightarrow> [])
             in io_bind (file_exists e owner repo path branch headers) (\<lambda>existing.
                io_bind (if py_bool existing
                         then (if \<not> force_update
                               then io_raise (SystemExit
                                      (S ''File already exists at '' @ path @ S '' on branch '' @
                                       (case branch of Some (c # cs) \<Rightarrow> c # cs
                                        | _ \<Rightarrow> S ''default'') @
                                       S ''. Use --force to update.''))
                               else io_bind (io_lift (py_get existing (S ''sha''))) (\<lambda>sha.
                                    io_return (payload @ [(S ''sha'', sha)])))
                         else io_return payload) (\<lambda>payload.
                io_bind (io_put e url headers (JObj payload)) (\<lambda>r.
                if status_code r = 200 \<or> status_code r = 201 then io_lift (response_json r)
                else io_raise (SystemExit
                       (S ''GitHub API error ('' @ py_str_int (status_code r) @ S ''): '' @
                        (case resp_json r of Some err \<Rightarrow> json_str e err
                         | None \<Rightarrow> resp_text r)))))))))"

section \<open>Names for what the statements speak of\<close>

text \<open>
  The values the functions above build in place, named so that the statements can speak
  of them: the remote URL that embeds the credential, the commands, the requests.
\<close>

definition authenticated_url :: "pystr \<Rightarrow> pystr \<Rightarrow> pystr \<Rightarrow> pystr" where
  "authenticated_url username repo token =
     S ''https://'' @ username @ S '':'' @ token @ S ''@github.com/'' @ username @ S ''/'' @
     repo @ S ''.git''"

definition set_url_command :: "pystr \<Rightarrow> pystr \<Rightarrow> pystr \<Rightarrow> pystr list" where
  "set_url_command username repo token =
     [S ''git'', S ''remote'', S ''set-url'', S ''origin'', authenticated_url username repo token]"

definition push_command :: "pystr \<Rightarrow> pystr list" where
  "push_command branch = [S ''git'', S ''push'', S ''--set-upstream'', S ''origin'', branch]"

definition commit_command :: "pystr \<Rightarrow> pystr list" where
  "commit_command message = [S ''git'', S ''commit'', S ''-m'', message]"

definition add_command :: "pystr list option \<Rightarrow> pystr list" where
  "add_command paths =
     (case paths of Some (p # ps) \<Rightarrow> [S ''git'', S ''add''] @ (p # ps)
      | _ \<Rightarrow> [S ''git'', S ''add'', S ''-A''])"

text \<open>The text of the error \<open>run_cmd\<close> raises: the command line and the captured error text.\<close>

definition failure_text :: "pystr list \<Rightarrow> CompletedProcess \<Rightarrow> pystr" where
  "failure_text cmd proc = S ''Command failed: '' @ py_join (S '' '') cmd @ [NL] @ stderr proc"

definition auth_headers :: "pystr \<Rightarrow> (pystr \<times> pystr) list" where
  "auth_headers token =
     [(S ''Authorization'', S ''token '' @ token),
      (S ''Accept'', S ''application/vnd.github.v3+json'')]"

definition pulls_url :: "pystr \<Rightarrow> pystr \<Rightarrow> pystr" where
  "pulls_url username repo = S ''https://api.github.com/repos/'' @ username @ S ''/'' @ repo @ S ''/pulls''"

definition pr_payload :: "pystr \<Rightarrow> pystr \<Rightarrow> pystr \<Rightarrow> pystr \<Rightarrow> json" where
  "pr_payload title head base body =
     JObj [(S ''title'', JStr title), (S ''head'', JStr head), (S ''base'', JStr base),
           (S ''body'', JStr body)]"

definition pr_body :: pystr where
  "pr_body = S ''Automated PR created from Colab.''"

definition default_message :: "datetime \<Rightarrow> pystr" where
  "default_message now = S ''Colab: automated update at '' @ isoformat now @ S ''Z''"

definition demo_text :: "datetime \<Rightarrow> pystr" where
  "demo_text now = S ''Updated from Colab at '' @ isoformat now @ S ''Z'' @ [NL]"

definition pr_error_text :: "int \<Rightarrow> pystr \<Rightarrow> pystr" where
  "pr_error_text status body = S ''Failed to create PR: '' @ py_str_int status @ S '' '' @ body"

definition contents_url :: "pystr \<Rightarrow> pystr \<Rightarrow> pystr \<Rightarrow> pystr" where
  "contents_url owner repo quoted =
     API_BASE @ S ''/repos/'' @ owner @ S ''/'' @ repo @ S ''/contents/'' @ quoted"

definition ref_params :: "pystr option \<Rightarrow> (pystr \<times> pystr) list" where
  "ref_params branch = (case branch of Some (c # cs) \<Rightarrow> [(S ''ref'', c # cs)] | _ \<Rightarrow> [])"

definition file_exists_text :: "pystr \<Rightarrow> pystr option \<Rightarrow> pystr" where
  "file_exists_text path branch =
     S ''File already exists at '' @ path @ S '' on branch '' @
     (case branch of Some (c # cs) \<Rightarrow> c # cs | _ \<Rightarrow> S ''default'') @
     S ''. Use --force to update.''"

text \<open>The URL of a request, when the event is one.\<close>

fun request_url :: "event \<Rightarrow> pystr option" where
  "request_url (HttpGet url headers params) = Some url"
| "request_url (HttpPost url headers payload) = Some url"
| "request_url (HttpPut url headers payload) = Some url"
| "request_url ev = None"

text \<open>How \<open>quote_plus\<close> writes one byte when it is given no safe characters.\<close>

definition plus_byte :: "nat \<Rightarrow> pystr" where
  "plus_byte b =
     (if b = 32 then [43]
      else if always_safe b then [b]
      else [37, hex_digit (b div 16), hex_digit (b mod 16)])"

text \<open>
  A computation started after the events \<open>h\<close> keeps them and adds only events that
  satisfy \<open>P\<close>.
\<close>

definition adds_only :: "(event \<Rightarrow> bool) \<Rightarrow> 'a io \<Rightarrow> event list \<Rightarrow> bool" where
  "adds_only P m h \<longleftrightarrow> (\<exists>evs. snd (m h) = h @ evs \<and> list_all P evs)"

section \<open>A scripted outside, for concrete runs\<close>

text \<open>
  An outside that answers every process by \<open>run\<close> of its argument vector and every
  request by a fixed response, where no path exists, no file operation fails, and the
  token is in the environment.
\<close>

definition scripted_env ::
  "(pystr list \<Rightarrow> CompletedProcess) \<Rightarrow> response \<Rightarrow> response \<Rightarrow> response \<Rightarrow> env" where
  "scripted_env run got posted stored =
     \<lparr>subprocess_run = (\<lambda>h cmd cwd. Inr (run cmd)),
      requests_get = (\<lambda>h url headers params. Inr got),
      requests_post = (\<lambda>h url headers payload. Inr posted),
      requests_put = (\<lambda>h url headers payload. Inr stored),
      path_exists = (\<lambda>h p. False),
      rmtree_error = (\<lambda>h p. None),
      write_text_error = (\<lambda>h p content. None),
      clock = (\<lambda>h. \<lparr>year = 2024, month = 5, day = 17, hour = 8, minute = 30, second = 0,
                      microsecond = 0\<rparr>),
      environ_get = (\<lambda>k. if k = S ''GITHUB_TOKEN'' then Some (S ''t0ken'') else None),
      getpass_result = (\<lambda>h prompt. Inl (ExternalError [])),
      path_str = (\<lambda>p. p),
      path_join = (\<lambda>d n. d @ S ''/'' @ n),
      json_str = (\<lambda>j. [])\<rparr>"

definition exited :: "int \<Rightarrow> pystr \<Rightarrow> CompletedProcess" where
  "exited code err = \<lparr>returncode = code, stdout = [], stderr = err\<rparr>"

definition answered :: "int \<Rightarrow> pystr \<Rightarrow> json option \<Rightarrow> response" where
  "answered status body parsed = \<lparr>status_code = status, resp_text = body, resp_json = parsed\<rparr>"

text \<open>
  A git whose \<open>commit\<close> finds nothing to commit and says so on its error stream, and
  whose other commands succeed.
\<close>

definition nothing_to_commit_git :: "pystr list \<Rightarrow> CompletedProcess" where
  "nothing_to_commit_git cmd =
     (if take 2 cmd = [S ''git'', S ''commit'']
      then exited 1 (S ''nothing to commit, working tree clean'')
      else exited 0 [])"

text \<open>A process that fails with the given status and the one word \<open>fatal\<close>.\<close>

definition failing_env :: "int \<Rightarrow> env" where
  "failing_env code =
     scripted_env (\<lambda>cmd. exited code (S ''fatal'')) (answered 404 [] None) (answered 404 [] None)
       (answered 404 [] None)"

text \<open>
  An outside where git finds nothing to commit, the file probed is absent, and the
  pull request is created.
\<close>

definition demo_env :: env where
  "demo_env =
     scripted_env nothing_to_commit_git (answered 404 [] None)
       (answered 201 [] (Some (JObj [(S ''html_url'', JStr (S ''https://github.com/u/r/pull/1''))])))
       (answered 201 [] (Some (JObj [])))"

text \<open>An outside that answers the probe and the pull-request call with a given response.\<close>

definition answering_env :: "response \<Rightarrow> env" where
  "answering_env r = scripted_env (\<lambda>cmd. exited 0 []) r r r"

section \<open>Properties of the demo transform\<close>

lemma dropWhile_dropWhile_rev_Nil:
  "dropWhile P (rev (dropWhile P s)) = [] \<longleftrightarrow> dropWhile P s = []"
proof (cases "dropWhile P s")
  case Nil
  then show ?thesis by (simp del: dropWhile_eq_Nil_conv)
next
  case (Cons x xs)
  then have "\<not> P x" using hd_dropWhile [of P s] by (simp del: dropWhile_eq_Nil_conv)
  with Cons show ?thesis by (auto simp: dropWhile_eq_Nil_conv)
qed

lemma py_strip_empty_iff: "py_strip s = [] \<longleftrightarrow> blank s"
proof -
  have "py_strip s = [] \<longleftrightarrow> dropWhile py_isspace s = []"
    unfolding py_strip_def rev_is_Nil_conv by (rule dropWhile_dropWhile_rev_Nil)
  also have "\<dots> \<longleftrightarrow> blank s"
    by (simp add: blank_def list_all_iff)
  finally show ?thesis .
qed

text \<open>
  C7. For every list of input lines, \<open>transform\<close> gives the upper-cased form of each
  line that is not blank (not empty and not made of white space only), in the order of
  the input, and drops every blank line.
\<close>

theorem transform_spec:
  "transform tbl lines = map (py_upper tbl) (filter (\<lambda>line. \<not> blank line) lines)"
  by (simp add: transform_def py_strip_empty_iff)

text \<open>The example of the test suite.\<close>

lemma transform_example:
  "transform ascii_only_table
     [S ''hello world'', S ''this is a test'', S '''', S ''mixed Case Line''] =
   [S ''HELLO WORLD'', S ''THIS IS A TEST'', S ''MIXED CASE LINE'']"
  by (simp add: transform_def py_upper_def toupper_full_def py_strip_def py_isspace_def
      S_def ascii_only_table_def)

lemma digits_range: "c \<in> set (digits n) \<Longrightarrow> 48 \<le> c \<and> c \<le> 57"
proof (induction n arbitrary: c rule: digits.induct)
  case (1 n)
  show ?case
  proof (cases "n < 10")
    case True
    with "1.prems" show ?thesis by (simp add: digits.simps [of n])
  next
    case False
    with "1.prems" have "c \<in> set (digits (n div 10)) \<or> c = 48 + n mod 10"
      by (auto simp: digits.simps [of n])
    then show ?thesis
    proof
      assume "c \<in> set (digits (n div 10))"
      with "1.IH" False show ?thesis by simp
    next
      assume "c = 48 + n mod 10"
      moreover have "n mod 10 < 10" by simp
      ultimately show ?thesis by linarith
    qed
  qed
qed

lemma zero_pad_range: "c \<in> set (zero_pad w n) \<Longrightarrow> 48 \<le> c \<and> c \<le> 57"
  by (auto simp: zero_pad_def dest: digits_range)

lemma NL_notin_zero_pad: "NL \<notin> set (zero_pad w n)"
  using zero_pad_range [of NL w n] by (auto simp: NL_def)

lemma NL_notin_isoformat: "NL \<notin> set (isoformat d)"
  by (simp add: isoformat_def NL_notin_zero_pad) (simp add: S_def NL_def)

lemma py_join_unlines: "ts \<noteq> [] \<Longrightarrow> py_join [NL] ts @ [NL] = unlines ts"
  by (induction "[NL]" ts rule: py_join.induct) (simp_all add: unlines_def)

lemma first_line_append: "NL \<notin> set h \<Longrightarrow> first_line (h @ NL # rest) = h"
proof -
  assume "NL \<notin> set h"
  then have "\<And>x. x \<in> set h \<Longrightarrow> x \<noteq> NL" by auto
  then show ?thesis by (simp add: first_line_def takeWhile_append2)
qed

lemma after_first_line_append: "NL \<notin> set h \<Longrightarrow> after_first_line (h @ NL # rest) = rest"
proof -
  assume "NL \<notin> set h"
  then have "\<And>x. x \<in> set h \<Longrightarrow> x \<noteq> NL" by auto
  then show ?thesis by (simp add: after_first_line_def dropWhile_append2)
qed

lemma NL_notin_header: "NL \<notin> set (header_line now)"
  by (simp add: header_line_def NL_notin_isoformat) (simp add: S_def NL_def)

lemma write_output_unlines:
  "write_output now ts =
     unlines (header_line now # (if ts = [] then [S ''NO_INPUT''] else ts))"
proof (cases "ts = []")
  case True
  then show ?thesis by (simp add: write_output_def unlines_def header_line_def)
next
  case False
  then have "py_join [NL] ts @ [NL] = unlines ts" by (rule py_join_unlines)
  with False show ?thesis by (simp add: write_output_def unlines_def header_line_def)
qed

lemma write_output_split:
  "write_output now ts =
     header_line now @ NL # unlines (if ts = [] then [S ''NO_INPUT''] else ts)"
  by (simp add: write_output_unlines unlines_def)

text \<open>
  C8. Whatever the transformed lines are, the file written is the header line
  \<open># Generated at <timestamp>Z\<close> followed by the transformed lines, one per line, when
  there are any, and by the single line \<open>NO_INPUT\<close> when there are none; its first line
  is the header. A missing input file gives no input lines, hence the header and
  \<open>NO_INPUT\<close>.
\<close>

theorem write_output_spec:
  "write_output now ts =
     unlines (header_line now # (if ts = [] then [S ''NO_INPUT''] else ts)) \<and>
   first_line (write_output now ts) = header_line now \<and>
   read_input None = [] \<and>
   write_output now (transform tbl (read_input None)) =
     unlines [header_line now, S ''NO_INPUT'']"
proof -
  have "first_line (write_output now ts) = header_line now"
    unfolding write_output_split by (rule first_line_append) (rule NL_notin_header)
  moreover have "read_input None = []" by (simp add: read_input_def)
  moreover have "transform tbl [] = []" by (simp add: transform_def)
  ultimately show ?thesis by (simp add: write_output_unlines)
qed

lemma after_first_line_write_output:
  "after_first_line (write_output now ts) = unlines (if ts = [] then [S ''NO_INPUT''] else ts)"
  unfolding write_output_split by (rule after_first_line_append) (rule NL_notin_header)

text \<open>
  C9. What the file holds after its first line does not depend on the time of the run:
  it is a function of the transformed lines alone. Running the script a second time on
  the files the first run left, at another time, leaves an output file with the same
  content after the header line.
\<close>

theorem rerun_same_body:
  "after_first_line (write_output t1 ts) = after_first_line (write_output t2 ts) \<and>
   after_first_line (write_output t1 ts) = unlines (if ts = [] then [S ''NO_INPUT''] else ts) \<and>
   map_option after_first_line
     (output_file (run_once (env\<lparr>utcnow := t2\<rparr>) p (run_once (env\<lparr>utcnow := t1\<rparr>) p fs))) =
   map_option after_first_line (output_file (run_once (env\<lparr>utcnow := t1\<rparr>) p fs))"
  by (auto simp: after_first_line_write_output run_once_def main_def Let_def split: option.splits)


section \<open>Properties of the notebook helper\<close>

subsection \<open>Running a command\<close>

lemma io_bind_Inr: "m h = (Inr x, h') \<Longrightarrow> io_bind m f h = f x h'"
  by (simp add: io_bind_def)

lemma run_cmd_eq:
  "subprocess_run e h cmd cwd = Inr proc \<Longrightarrow>
   run_cmd e cmd cwd check h =
     ((if check \<and> returncode proc \<noteq> 0 then Inl (RuntimeError (failure_text cmd proc))
       else Inr proc), h @ [Subprocess cmd cwd])"
  by (simp add: run_cmd_def io_bind_def io_subprocess_def io_raise_def io_return_def
      failure_text_def)

lemma run_cmd_launch_failure:
  "subprocess_run e h cmd cwd = Inl err \<Longrightarrow>
   run_cmd e cmd cwd check h = (Inl err, h @ [Subprocess cmd cwd])"
  by (simp add: run_cmd_def io_bind_def io_subprocess_def)

text \<open>
  C3, as the code has it. For every argument vector, when the process has run: with
  \<open>check\<close> set and an exit status other than zero, \<open>run_cmd\<close> raises a
  \<open>RuntimeError\<close> whose text is the command line and the captured error text (the exit
  status is no part of it); with \<open>check\<close> unset it returns the exit status and the two
  captured streams, whatever the exit status.
\<close>

theorem run_cmd_outcome:
  assumes "subprocess_run e h cmd cwd = Inr proc"
  shows "run_cmd e cmd cwd True h =
           ((if returncode proc \<noteq> 0 then Inl (RuntimeError (failure_text cmd proc))
             else Inr proc), h @ [Subprocess cmd cwd]) \<and>
         run_cmd e cmd cwd False h = (Inr proc, h @ [Subprocess cmd cwd])"
  using assms by (simp add: run_cmd_eq)

lemma subprocess_run_scripted:
  "subprocess_run (scripted_env run got posted stored) h cmd cwd = Inr (run cmd)"
  by (simp add: scripted_env_def)

theorem run_cmd_outcome_witness:
  "subprocess_run (failing_env 1) [] [S ''git'', S ''status''] None = Inr (exited 1 (S ''fatal'')) \<and>
   run_cmd (failing_env 1) [S ''git'', S ''status''] None True [] =
     (Inl (RuntimeError (S ''Command failed: git status\<newline>fatal'')),
      [Subprocess [S ''git'', S ''status''] None]) \<and>
   run_cmd (failing_env 1) [S ''git'', S ''status''] None False [] =
     (Inr (exited 1 (S ''fatal'')), [Subprocess [S ''git'', S ''status''] None])"
proof -
  have ran: "subprocess_run (failing_env 1) [] [S ''git'', S ''status''] None =
      Inr (exited 1 (S ''fatal''))"
    by (simp add: failing_env_def subprocess_run_scripted)
  show ?thesis
    using run_cmd_outcome [OF ran] ran
    by (simp add: failure_text_def exited_def S_def NL_def)
qed

text \<open>
  C3 as stated fails: the error does not carry the exit status. Two runs of one command
  that end with the same error text and the exit statuses 1 and 128 raise the same error.
\<close>

theorem run_cmd_error_hides_status:
  "fst (run_cmd (failing_env 1) [S ''git'', S ''status''] None True []) =
     Inl (RuntimeError (S ''Command failed: git status\<newline>fatal'')) \<and>
   fst (run_cmd (failing_env 128) [S ''git'', S ''status''] None True []) =
     Inl (RuntimeError (S ''Command failed: git status\<newline>fatal''))"
  by (simp add: run_cmd_eq failing_env_def subprocess_run_scripted failure_text_def exited_def
      S_def NL_def)

subsection \<open>Committing\<close>

text \<open>\<open>sub in s\<close> is the substring test.\<close>

lemma py_startswith_prefix: "py_startswith s p \<longleftrightarrow> prefix p s"
  by (induction s p rule: py_startswith.induct) auto

lemma py_in_sublist: "py_in sub s \<longleftrightarrow> sublist sub s"
proof (induction s)
  case Nil
  then show ?case by simp
next
  case (Cons c cs)
  show ?case
  proof (cases sub)
    case Nil
    then show ?thesis by simp
  next
    case (Cons x xs)
    with Cons.IH show ?thesis by (simp add: py_startswith_prefix sublist_Cons_right)
  qed
qed

text \<open>What the process wrote on its error stream is part of the text of the failure.\<close>

lemma stderr_in_failure_text:
  "sublist sub (stderr proc) \<Longrightarrow> sublist sub (failure_text cmd proc)"
proof -
  assume "sublist sub (stderr proc)"
  then obtain ps ss where "stderr proc = ps @ sub @ ss"
    by (auto simp: sublist_def)
  then have "failure_text cmd proc =
      (S ''Command failed: '' @ py_join (S '' '') cmd @ [NL] @ ps) @ sub @ ss"
    by (simp add: failure_text_def)
  then show ?thesis
    unfolding sublist_def by blast
qed

lemma commit_changes_eq:
  assumes "run_cmd e (add_command paths) (Some repo_dir) True h = (Inr added, h1)"
    and "subprocess_run e h1 (commit_command message) (Some repo_dir) = Inr proc"
  shows "commit_changes e repo_dir message paths h =
           ((if returncode proc = 0 then Inr True
             else if sublist (S ''nothing to commit'') (failure_text (commit_command message) proc) \<or>
                     sublist (S ''no changes added to commit'')
                       (failure_text (commit_command message) proc)
                  then Inr False
                  else Inl (RuntimeError (failure_text (commit_command message) proc))),
            h1 @ [Subprocess (commit_command message) (Some repo_dir)])"
proof -
  let ?stage = "case paths of
        Some (p # ps) \<Rightarrow> run_cmd e ([S ''git'', S ''add''] @ (p # ps)) (Some repo_dir) True
      | _ \<Rightarrow> run_cmd e [S ''git'', S ''add'', S ''-A''] (Some repo_dir) True"
  have "?stage = run_cmd e (add_command paths) (Some repo_dir) True"
    by (simp add: add_command_def split: option.splits list.splits)
  with assms(1) have add: "?stage h = (Inr added, h1)"
    by simp
  have commit: "run_cmd e [S ''git'', S ''commit'', S ''-m'', message] (Some repo_dir) True h1 =
      ((if returncode proc \<noteq> 0
        then Inl (RuntimeError (failure_text (commit_command message) proc))
        else Inr proc), h1 @ [Subprocess (commit_command message) (Some repo_dir)])"
    using run_cmd_eq [OF assms(2), of True] by (simp add: commit_command_def)
  have "commit_changes e repo_dir message paths h =
      (case run_cmd e [S ''git'', S ''commit'', S ''-m'', message] (Some repo_dir) True h1 of
         (Inr _, h') \<Rightarrow> (Inr True, h')
       | (Inl (RuntimeError err), h') \<Rightarrow>
           if py_in (S ''nothing to commit'') err \<or>
              py_in (S ''no changes added to commit'') err
           then (Inr False, h')
           else (Inl (RuntimeError err), h')
       | (Inl other, h') \<Rightarrow> (Inl other, h'))"
    unfolding commit_changes_def by (rule io_bind_Inr [of ?stage h added h1, OF add])
  also have "\<dots> = ((if returncode proc = 0 then Inr True
             else if sublist (S ''nothing to commit'') (failure_text (commit_command message) proc) \<or>
                     sublist (S ''no changes added to commit'')
                       (failure_text (commit_command message) proc)
                  then Inr False
                  else Inl (RuntimeError (failure_text (commit_command message) proc))),
            h1 @ [Subprocess (commit_command message) (Some repo_dir)])"
    unfolding commit by (simp add: py_in_sublist)
  finally show ?thesis .
qed

text \<open>
  When the commit command cannot be run at all, the error of the launch is raised as it
  is, unless it is a \<open>RuntimeError\<close> whose text passes the same substring test.
\<close>

lemma commit_changes_launch_failure:
  assumes "run_cmd e (add_command paths) (Some repo_dir) True h = (Inr added, h1)"
    and "subprocess_run e h1 (commit_command message) (Some repo_dir) = Inl err"
  shows "commit_changes e repo_dir message paths h =
           ((case err of
               RuntimeError m \<Rightarrow>
                 if sublist (S ''nothing to commit'') m \<or> sublist (S ''no changes added to commit'') m
                 then Inr False else Inl err
             | _ \<Rightarrow> Inl err),
            h1 @ [Subprocess (commit_command message) (Some repo_dir)])"
proof -
  let ?stage = "case paths of
        Some (p # ps) \<Rightarrow> run_cmd e ([S ''git'', S ''add''] @ (p # ps)) (Some repo_dir) True
      | _ \<Rightarrow> run_cmd e [S ''git'', S ''add'', S ''-A''] (Some repo_dir) True"
  have "?stage = run_cmd e (add_command paths) (Some repo_dir) True"
    by (simp add: add_command_def split: option.splits list.splits)
  with assms(1) have add: "?stage h = (Inr added, h1)"
    by simp
  have commit: "run_cmd e [S ''git'', S ''commit'', S ''-m'', message] (Some repo_dir) True h1 =
      (Inl err, h1 @ [Subprocess (commit_command message) (Some repo_dir)])"
    using run_cmd_launch_failure [OF assms(2), of True] by (simp add: commit_command_def)
  show ?thesis
    unfolding commit_changes_def io_bind_Inr [of ?stage h added h1, OF add] commit
    by (cases err) (simp_all add: py_in_sublist)
qed

text \<open>
  C2. Once the staging command has succeeded and the commit command has run:
  \<open>commit_changes\<close> returns \<open>True\<close> when the commit command exits with status zero;
  when it fails and the text of the failure (the command line and the captured error
  text) contains \<open>nothing to commit\<close> or \<open>no changes added to commit\<close>, it returns
  \<open>False\<close> and raises nothing; every other failure of the commit command is raised as
  it is. Nothing but these two substring tests separates \<open>False\<close> from an error.
\<close>

theorem commit_changes_outcome:
  assumes "run_cmd e (add_command paths) (Some repo_dir) True h = (Inr added, h1)"
    and "subprocess_run e h1 (commit_command message) (Some repo_dir) = Inr proc"
  shows "commit_changes e repo_dir message paths h =
           ((if returncode proc = 0 then Inr True
             else if sublist (S ''nothing to commit'') (failure_text (commit_command message) proc) \<or>
                     sublist (S ''no changes added to commit'')
                       (failure_text (commit_command message) proc)
                  then Inr False
                  else Inl (RuntimeError (failure_text (commit_command message) proc))),
            h1 @ [Subprocess (commit_command message) (Some repo_dir)])"
  using assms by (rule commit_changes_eq)

theorem commit_changes_outcome_witness:
  "run_cmd demo_env (add_command (Some [S ''colab_update.txt''])) (Some (S ''/content/r'')) True [] =
     (Inr (exited 0 []),
      [Subprocess (add_command (Some [S ''colab_update.txt''])) (Some (S ''/content/r''))]) \<and>
   subprocess_run demo_env
       [Subprocess (add_command (Some [S ''colab_update.txt''])) (Some (S ''/content/r''))]
       (commit_command (S ''update'')) (Some (S ''/content/r'')) =
     Inr (exited 1 (S ''nothing to commit, working tree clean'')) \<and>
   commit_changes demo_env (S ''/content/r'') (S ''update'') (Some [S ''colab_update.txt'']) [] =
     (Inr False,
      [Subprocess (add_command (Some [S ''colab_update.txt''])) (Some (S ''/content/r'')),
       Subprocess (commit_command (S ''update'')) (Some (S ''/content/r''))])"
proof -
  let ?add = "add_command (Some [S ''colab_update.txt''])"
  have staged: "run_cmd demo_env ?add (Some (S ''/content/r'')) True [] =
      (Inr (exited 0 []), [Subprocess ?add (Some (S ''/content/r''))])"
    by (simp add: run_cmd_eq demo_env_def subprocess_run_scripted nothing_to_commit_git_def
        add_command_def exited_def S_def)
  have committed: "subprocess_run demo_env [Subprocess ?add (Some (S ''/content/r''))]
       (commit_command (S ''update'')) (Some (S ''/content/r'')) =
     Inr (exited 1 (S ''nothing to commit, working tree clean''))"
    by (simp add: demo_env_def subprocess_run_scripted nothing_to_commit_git_def
        commit_command_def)
  have found: "py_in (S ''nothing to commit'')
      (failure_text (commit_command (S ''update''))
         (exited 1 (S ''nothing to commit, working tree clean'')))"
    by (simp add: failure_text_def commit_command_def exited_def S_def NL_def)
  show ?thesis
    using commit_changes_outcome [OF staged committed] staged committed found
    by (simp add: py_in_sublist exited_def)
qed

subsection \<open>Creating the pull request\<close>

text \<open>\<open>str\<close> of an integer can be read back, and holds no space.\<close>

lemma digits_value: "foldl (\<lambda>a d. 10 * a + (d - 48)) 0 (digits n) = n"
proof (induction n rule: digits.induct)
  case (1 n)
  show ?case
  proof (cases "n < 10")
    case True
    then show ?thesis by (simp add: digits.simps [of n])
  next
    case False
    with "1.IH" show ?thesis by (simp add: digits.simps [of n])
  qed
qed

lemma digits_inj: "digits n = digits m \<Longrightarrow> n = m"
  by (metis digits_value)

lemma py_str_int_chars: "c \<in> set (py_str_int i) \<Longrightarrow> c = 45 \<or> (48 \<le> c \<and> c \<le> 57)"
  by (auto simp: py_str_int_def dest: digits_range split: if_splits)

lemma py_str_int_inj: "py_str_int i = py_str_int j \<Longrightarrow> i = j"
proof -
  assume eq: "py_str_int i = py_str_int j"
  have no_minus: "\<And>n ds. 45 # ds \<noteq> digits n"
  proof
    fix n ds assume "45 # ds = digits n"
    then have "45 \<in> set (digits n)" by (metis list.set_intros(1))
    then show False using digits_range [of 45 n] by simp
  qed
  show "i = j"
  proof (cases "i < 0")
    case True
    show ?thesis
    proof (cases "j < 0")
      case True
      with \<open>i < 0\<close> eq have "nat (- i) = nat (- j)"
        by (simp add: py_str_int_def digits_inj)
      with True \<open>i < 0\<close> show ?thesis by simp
    next
      case False
      with True eq no_minus show ?thesis by (simp add: py_str_int_def)
    qed
  next
    case False
    show ?thesis
    proof (cases "j < 0")
      case True
      with False eq no_minus [of "digits (nat (- j))" "nat i"] show ?thesis
        by (simp add: py_str_int_def)
    next
      case False
      with \<open>\<not> i < 0\<close> eq have "nat i = nat j"
        by (simp add: py_str_int_def digits_inj)
      with False \<open>\<not> i < 0\<close> show ?thesis by simp
    qed
  qed
qed

lemma split_at_space:
  assumes "xs @ 32 # t = ys @ 32 # t'" and "(32::nat) \<notin> set xs" and "32 \<notin> set ys"
  shows "xs = ys \<and> t = t'"
proof -
  have a: "\<And>x. x \<in> set xs \<Longrightarrow> x \<noteq> 32" using assms(2) by auto
  have b: "\<And>x. x \<in> set ys \<Longrightarrow> x \<noteq> 32" using assms(3) by auto
  have "takeWhile (\<lambda>c. c \<noteq> 32) (xs @ 32 # t) = xs"
    using a by (simp add: takeWhile_append2)
  moreover have "takeWhile (\<lambda>c. c \<noteq> 32) (ys @ 32 # t') = ys"
    using b by (simp add: takeWhile_append2)
  ultimately have "xs = ys" using assms(1) by simp
  with assms(1) show ?thesis by simp
qed

lemma pr_error_text_inj:
  assumes "pr_error_text s t = pr_error_text s' t'"
  shows "s = s' \<and> t = t'"
proof -
  have "py_str_int s @ 32 # t = py_str_int s' @ 32 # t'"
    using assms by (simp add: pr_error_text_def S_def)
  moreover have "32 \<notin> set (py_str_int s)" using py_str_int_chars [of 32 s] by auto
  moreover have "32 \<notin> set (py_str_int s')" using py_str_int_chars [of 32 s'] by auto
  ultimately have "py_str_int s = py_str_int s' \<and> t = t'" by (rule split_at_space)
  then show ?thesis by (simp add: py_str_int_inj)
qed

lemma create_pull_request_eq:
  assumes "requests_post e h (pulls_url username repo) (auth_headers token)
             (pr_payload title head base body) = Inr r"
  shows "create_pull_request e username repo token head base title body h =
           ((if status_code r = 200 \<or> status_code r = 201
             then (case resp_json r of Some j \<Rightarrow> Inr j | None \<Rightarrow> Inl JSONDecodeError)
             else Inl (RuntimeError (pr_error_text (status_code r) (resp_text r)))),
            h @ [HttpPost (pulls_url username repo) (auth_headers token)
                   (pr_payload title head base body)])"
  using assms
  by (simp add: create_pull_request_def Let_def io_bind_def io_post_def io_raise_def io_lift_def
      response_json_def pulls_url_def auth_headers_def pr_payload_def pr_error_text_def
      split: option.splits)

lemma requests_post_scripted:
  "requests_post (scripted_env run got posted stored) h url headers payload = Inr posted"
  by (simp add: scripted_env_def)

lemma requests_get_scripted:
  "requests_get (scripted_env run got posted stored) h url headers params = Inr got"
  by (simp add: scripted_env_def)

text \<open>
  C6, as the code has it. Once the request has been answered: the call succeeds exactly
  when the status is 200 or 201 and the body of the response parses as JSON, and then
  returns the parsed body; with status 200 or 201 and a body that is not JSON it raises
  the error of the parser; for every other status it raises a \<open>RuntimeError\<close> whose text
  holds the status and the body of the response, both of which can be read back from it.
\<close>

theorem create_pull_request_outcome:
  assumes "requests_post e h (pulls_url username repo) (auth_headers token)
             (pr_payload title head base body) = Inr r"
  shows "create_pull_request e username repo token head base title body h =
           ((if status_code r = 200 \<or> status_code r = 201
             then (case resp_json r of Some j \<Rightarrow> Inr j | None \<Rightarrow> Inl JSONDecodeError)
             else Inl (RuntimeError (pr_error_text (status_code r) (resp_text r)))),
            h @ [HttpPost (pulls_url username repo) (auth_headers token)
                   (pr_payload title head base body)]) \<and>
         ((\<exists>j. fst (create_pull_request e username repo token head base title body h) = Inr j) \<longleftrightarrow>
            (status_code r = 200 \<or> status_code r = 201) \<and> resp_json r \<noteq> None) \<and>
         (\<forall>s t. pr_error_text s t = pr_error_text (status_code r) (resp_text r) \<longrightarrow>
            s = status_code r \<and> t = resp_text r)"
proof -
  note eq = create_pull_request_eq [OF assms]
  have "(\<exists>j. fst (create_pull_request e username repo token head base title body h) = Inr j) \<longleftrightarrow>
            (status_code r = 200 \<or> status_code r = 201) \<and> resp_json r \<noteq> None"
    unfolding eq by (auto split: option.splits)
  with eq show ?thesis
    using pr_error_text_inj by blast
qed

theorem create_pull_request_outcome_witness:
  "requests_post demo_env [] (pulls_url (S ''u'') (S ''r'')) (auth_headers (S ''t0ken''))
       (pr_payload (S ''update'') (S ''colab/auto-update'') (S ''main'') pr_body) =
     Inr (answered 201 []
       (Some (JObj [(S ''html_url'', JStr (S ''https://github.com/u/r/pull/1''))]))) \<and>
   fst (create_pull_request demo_env (S ''u'') (S ''r'') (S ''t0ken'') (S ''colab/auto-update'')
       (S ''main'') (S ''update'') pr_body []) =
     Inr (JObj [(S ''html_url'', JStr (S ''https://github.com/u/r/pull/1''))])"
proof -
  have posted: "requests_post demo_env [] (pulls_url (S ''u'') (S ''r'')) (auth_headers (S ''t0ken''))
       (pr_payload (S ''update'') (S ''colab/auto-update'') (S ''main'') pr_body) =
     Inr (answered 201 []
       (Some (JObj [(S ''html_url'', JStr (S ''https://github.com/u/r/pull/1''))])))"
    by (simp add: demo_env_def requests_post_scripted)
  show ?thesis
    using create_pull_request_outcome [OF posted] posted
    by (simp add: answered_def)
qed

text \<open>
  C6 as stated fails: a response with status 200 whose body is not JSON makes the call
  raise.
\<close>

theorem create_pull_request_200_not_json:
  "fst (create_pull_request (answering_env (answered 200 (S ''<html>ok</html>'') None))
       (S ''u'') (S ''r'') (S ''t0ken'') (S ''colab/auto-update'') (S ''main'') (S ''update'')
       pr_body []) = Inl JSONDecodeError"
  by (simp add: create_pull_request_eq answering_env_def requests_post_scripted answered_def)


section \<open>Properties of the content publisher\<close>

subsection \<open>The existence probe\<close>

lemma file_exists_eq:
  assumes "quote_plus path = Inr quoted"
    and "requests_get e h (contents_url owner repo quoted) headers (ref_params branch) = Inr r"
  shows "file_exists e owner repo path branch headers h =
           ((if status_code r = 200
             then (case resp_json r of Some j \<Rightarrow> Inr j | None \<Rightarrow> Inl JSONDecodeError)
             else if status_code r = 404 then Inr JNull
             else if 400 \<le> status_code r \<and> status_code r < 600
               then Inl (HTTPError (status_code r))
             else Inr JNull),
            h @ [HttpGet (contents_url owner repo quoted) headers (ref_params branch)])"
proof -
  have params: "(case branch of Some (c # cs) \<Rightarrow> [(S ''ref'', c # cs)] | _ \<Rightarrow> []) = ref_params branch"
    by (simp add: ref_params_def)
  have url: "API_BASE @ S ''/repos/'' @ owner @ S ''/'' @ repo @ S ''/contents/'' @ quoted =
      contents_url owner repo quoted"
    by (simp add: contents_url_def)
  show ?thesis
    unfolding file_exists_def assms(1) params
    by (simp add: io_bind_def io_lift_def Let_def url io_get_def assms(2) response_json_def
        raise_for_status_def io_raise_def io_return_def split: option.splits)
qed

lemma file_exists_events:
  "snd (file_exists e owner repo path branch headers h) =
     (case quote_plus path of
        Inl err \<Rightarrow> h
      | Inr quoted \<Rightarrow> h @ [HttpGet (contents_url owner repo quoted) headers (ref_params branch)])"
proof (cases "quote_plus path")
  case (Inl err)
  then show ?thesis by (simp add: file_exists_def io_bind_def io_lift_def)
next
  case (Inr quoted)
  have params: "(case branch of Some (c # cs) \<Rightarrow> [(S ''ref'', c # cs)] | _ \<Rightarrow> []) = ref_params branch"
    by (simp add: ref_params_def)
  have url: "API_BASE @ S ''/repos/'' @ owner @ S ''/'' @ repo @ S ''/contents/'' @ quoted =
      contents_url owner repo quoted"
    by (simp add: contents_url_def)
  show ?thesis
    unfolding file_exists_def Inr params
    by (simp add: io_bind_def io_lift_def Let_def url io_get_def response_json_def
        raise_for_status_def io_raise_def io_return_def split: sum.splits option.splits)
qed

text \<open>
  C5, as the code has it. Once the path has been quoted and the request answered: with
  status 200 the probe returns the parsed body of the response (the value the caller
  reads the \<open>sha\<close> from), and raises the error of the parser when the body is not JSON;
  with status 404 it returns \<open>None\<close>; with any other status from 400 to 599 it raises an
  \<open>HTTPError\<close>. In each case it has sent the one GET request and nothing else.
\<close>

theorem file_exists_outcome:
  assumes "quote_plus path = Inr quoted"
    and "requests_get e h (contents_url owner repo quoted) headers (ref_params branch) = Inr r"
  shows "(status_code r = 200 \<longrightarrow>
            fst (file_exists e owner repo path branch headers h) =
              (case resp_json r of Some j \<Rightarrow> Inr j | None \<Rightarrow> Inl JSONDecodeError)) \<and>
         (status_code r = 404 \<longrightarrow>
            fst (file_exists e owner repo path branch headers h) = Inr JNull) \<and>
         (400 \<le> status_code r \<and> status_code r < 600 \<and> status_code r \<noteq> 404 \<longrightarrow>
            fst (file_exists e owner repo path branch headers h) = Inl (HTTPError (status_code r))) \<and>
         snd (file_exists e owner repo path branch headers h) =
           h @ [HttpGet (contents_url owner repo quoted) headers (ref_params branch)]"
  by (simp add: file_exists_eq [OF assms])

lemma answered_sel:
  "status_code (answered s body parsed) = s"
  "resp_text (answered s body parsed) = body"
  "resp_json (answered s body parsed) = parsed"
  by (simp_all add: answered_def)

lemma quote_plus_notes: "quote_plus (S ''notes'') = Inr (S ''notes'')"
  by (simp add: quote_plus_def quote_def quote_byte_def always_safe_def utf8_bytes_def S_def)

theorem file_exists_outcome_witness:
  "quote_plus (S ''notes'') = Inr (S ''notes'') \<and>
   requests_get (answering_env (answered 200 [] (Some (JObj [(S ''sha'', JStr (S ''abc''))])))) []
       (contents_url (S ''alice'') (S ''myrepo'') (S ''notes'')) (auth_headers (S ''t0ken''))
       (ref_params None) =
     Inr (answered 200 [] (Some (JObj [(S ''sha'', JStr (S ''abc''))]))) \<and>
   fst (file_exists (answering_env (answered 200 [] (Some (JObj [(S ''sha'', JStr (S ''abc''))]))))
       (S ''alice'') (S ''myrepo'') (S ''notes'') None (auth_headers (S ''t0ken'')) []) =
     Inr (JObj [(S ''sha'', JStr (S ''abc''))])"
proof -
  let ?r = "answered 200 [] (Some (JObj [(S ''sha'', JStr (S ''abc''))]))"
  have got: "requests_get (answering_env ?r) []
       (contents_url (S ''alice'') (S ''myrepo'') (S ''notes'')) (auth_headers (S ''t0ken''))
       (ref_params None) = Inr ?r"
    by (simp add: answering_env_def requests_get_scripted)
  show ?thesis
    using file_exists_outcome [OF quote_plus_notes got] quote_plus_notes got
    by (simp add: answered_def)
qed

text \<open>
  C5 as stated fails at two responses: with status 204 the probe returns \<open>None\<close>, as it
  does for 404, and raises nothing; with status 200 and a body that is not JSON it raises.
\<close>

theorem file_exists_204_and_200_not_json:
  "fst (file_exists (answering_env (answered 204 [] None)) (S ''alice'') (S ''myrepo'')
       (S ''notes'') None (auth_headers (S ''t0ken'')) []) = Inr JNull \<and>
   fst (file_exists (answering_env (answered 200 (S ''<html>ok</html>'') None)) (S ''alice'')
       (S ''myrepo'') (S ''notes'') None (auth_headers (S ''t0ken'')) []) = Inl JSONDecodeError"
proof -
  have a: "requests_get (answering_env (answered 204 [] None)) []
       (contents_url (S ''alice'') (S ''myrepo'') (S ''notes'')) (auth_headers (S ''t0ken''))
       (ref_params None) = Inr (answered 204 [] None)"
    by (simp add: answering_env_def requests_get_scripted)
  have b: "requests_get (answering_env (answered 200 (S ''<html>ok</html>'') None)) []
       (contents_url (S ''alice'') (S ''myrepo'') (S ''notes'')) (auth_headers (S ''t0ken''))
       (ref_params None) = Inr (answered 200 (S ''<html>ok</html>'') None)"
    by (simp add: answering_env_def requests_get_scripted)
  show ?thesis
    by (simp add: file_exists_eq [OF quote_plus_notes a] file_exists_eq [OF quote_plus_notes b]
        answered_sel)
qed

subsection \<open>The guard against overwriting\<close>

lemma get_token_events:
  "snd (get_token e h) = h \<or>
   snd (get_token e h) =
     h @ [Getpass (S ''GitHub Personal Access Token (used only in this session): '')]"
  by (simp add: get_token_def io_return_def io_getpass_def
      split: option.splits list.splits sum.splits)

lemma file_exists_Inr_quoted:
  assumes "file_exists e owner repo path branch headers h = (Inr existing, h2)"
  shows "\<exists>quoted. quote_plus path = Inr quoted \<and>
           h2 = h @ [HttpGet (contents_url owner repo quoted) headers (ref_params branch)]"
proof (cases "quote_plus path")
  case (Inl err)
  then have "fst (file_exists e owner repo path branch headers h) = Inl err"
    by (simp add: file_exists_def io_bind_def io_lift_def)
  with assms show ?thesis by simp
next
  case (Inr quoted)
  with assms file_exists_events [of e owner repo path branch headers h] show ?thesis by simp
qed

text \<open>
  C4. Whenever the token has been obtained, the probe returns a value that the test
  \<open>if existing\<close> takes for true, and no overwrite was asked for, the call ends with
  \<open>SystemExit\<close> and a text that names the path and the branch (\<open>default\<close> when none was
  given); the events of the run end with the GET of the probe, so that it has sent no
  PUT request.
\<close>

theorem existing_file_not_overwritten:
  assumes "get_token e h0 = (Inr (Some (t # ts)), h1)"
    and "file_exists e owner repo path branch (auth_headers (t # ts)) h1 = (Inr existing, h2)"
    and "py_bool existing"
    and "\<not> force_update"
  shows "create_or_update_file e owner repo path content_bytes message branch force_update h0 =
           (Inl (SystemExit (file_exists_text path branch)), h2) \<and>
         filter is_put h2 = filter is_put h0 \<and>
         (\<exists>quoted. quote_plus path = Inr quoted \<and>
            h2 = h1 @ [HttpGet (contents_url owner repo quoted) (auth_headers (t # ts))
                        (ref_params branch)])"
proof -
  from file_exists_Inr_quoted [OF assms(2)] obtain quoted where
    q: "quote_plus path = Inr quoted" and
    h2: "h2 = h1 @ [HttpGet (contents_url owner repo quoted) (auth_headers (t # ts))
                        (ref_params branch)]"
    by blast
  have headers: "[(S ''Authorization'', S ''token '' @ t # ts),
      (S ''Accept'', S ''application/vnd.github.v3+json'')] = auth_headers (t # ts)"
    by (simp add: auth_headers_def)
  have result: "create_or_update_file e owner repo path content_bytes message branch force_update h0 =
           (Inl (SystemExit (file_exists_text path branch)), h2)"
    unfolding create_or_update_file_def
    by (simp add: io_bind_def assms q io_lift_def Let_def headers io_raise_def
        file_exists_text_def)
  have "h1 = h0 \<or> h1 = h0 @ [Getpass (S ''GitHub Personal Access Token (used only in this session): '')]"
    using get_token_events [of e h0] assms(1) by simp
  then have "filter is_put h1 = filter is_put h0" by auto
  with h2 have "filter is_put h2 = filter is_put h0" by simp
  with result q h2 show ?thesis by blast
qed

theorem existing_file_not_overwritten_witness:
  "get_token (answering_env (answered 200 [] (Some (JObj [(S ''sha'', JStr (S ''abc''))])))) [] =
     (Inr (Some (S ''t0ken'')), []) \<and>
   py_bool (JObj [(S ''sha'', JStr (S ''abc''))]) \<and>
   create_or_update_file (answering_env (answered 200 [] (Some (JObj [(S ''sha'', JStr (S ''abc''))]))))
       (S ''alice'') (S ''myrepo'') (S ''notes'') [104, 105] (S ''Add note'') None False [] =
     (Inl (SystemExit (S ''File already exists at notes on branch default. Use --force to update.'')),
      [HttpGet (contents_url (S ''alice'') (S ''myrepo'') (S ''notes'')) (auth_headers (S ''t0ken'')) []])"
proof -
  let ?j = "JObj [(S ''sha'', JStr (S ''abc''))]"
  let ?e = "answering_env (answered 200 [] (Some ?j))"
  have word: "S ''t0ken'' = 116 # S ''0ken''"
    by (simp add: S_def)
  have tok: "get_token ?e [] = (Inr (Some (116 # S ''0ken'')), [])"
    by (simp add: get_token_def answering_env_def scripted_env_def io_return_def py_strip_def
        py_isspace_def S_def)
  have got: "requests_get ?e [] (contents_url (S ''alice'') (S ''myrepo'') (S ''notes''))
       (auth_headers (116 # S ''0ken'')) (ref_params None) = Inr (answered 200 [] (Some ?j))"
    by (simp add: answering_env_def requests_get_scripted)
  have probe: "file_exists ?e (S ''alice'') (S ''myrepo'') (S ''notes'') None
       (auth_headers (116 # S ''0ken'')) [] =
     (Inr ?j, [HttpGet (contents_url (S ''alice'') (S ''myrepo'') (S ''notes''))
                 (auth_headers (116 # S ''0ken'')) (ref_params None)])"
    by (simp add: file_exists_eq [OF quote_plus_notes got] answered_sel)
  have present: "py_bool ?j"
    by simp
  have "\<not> False"
    by simp
  from existing_file_not_overwritten [OF tok probe present this, of "[104, 105]" "S ''Add note''"]
  show ?thesis
    using tok present by (simp add: word file_exists_text_def ref_params_def) (simp add: S_def)
qed


subsection \<open>The path in the URL\<close>

lemma hex_digit_range: "(48 \<le> hex_digit n \<and> hex_digit n \<le> 57) \<or> 65 \<le> hex_digit n"
  by (simp add: hex_digit_def)

lemma plus_byte_chars: "47 \<notin> set (plus_byte b) \<and> 32 \<notin> set (plus_byte b)"
  using hex_digit_range [of "b div 16"] hex_digit_range [of "b mod 16"]
  by (auto simp: plus_byte_def always_safe_def)

lemma plus_byte_slash: "plus_byte 47 = S ''%2F''"
  by (simp add: plus_byte_def always_safe_def hex_digit_def S_def)

lemma plus_byte_space: "plus_byte 32 = S ''+''"
  by (simp add: plus_byte_def S_def)

lemma utf8_bytes_ascii: "c < 128 \<Longrightarrow> utf8_bytes c = Some [c]"
  by (simp add: utf8_bytes_def)

lemma utf8_bytes_space: "utf8_bytes c = Some bs \<Longrightarrow> 32 \<in> set bs \<longleftrightarrow> c = 32"
  by (auto simp: utf8_bytes_def split: if_splits)

lemma utf8_encode_space: "utf8_encode s = Some bs \<Longrightarrow> 32 \<in> set bs \<longleftrightarrow> 32 \<in> set s"
proof (induction s arbitrary: bs)
  case Nil
  then show ?case by simp
next
  case (Cons c cs)
  from Cons.prems obtain b1 rest where
    b1: "utf8_bytes c = Some b1" and rest: "utf8_encode cs = Some rest" and bs: "bs = b1 @ rest"
    by (auto split: option.splits)
  from Cons.IH [OF rest] utf8_bytes_space [OF b1] bs show ?case by auto
qed

lemma utf8_encode_ascii: "\<forall>c\<in>set s. c < 128 \<Longrightarrow> utf8_encode s = Some s"
  by (induction s) (simp_all add: utf8_bytes_ascii)

lemma quote_byte_no_space: "b \<noteq> 32 \<Longrightarrow> quote_byte [] b = plus_byte b"
  by (simp add: quote_byte_def plus_byte_def)

lemma replace_quote_byte:
  "map (\<lambda>c. if c = 32 then 43 else c) (quote_byte [32] b) = plus_byte b"
  using hex_digit_range [of "b div 16"] hex_digit_range [of "b mod 16"]
  by (auto simp: quote_byte_def plus_byte_def always_safe_def)

lemma quote_plus_eq:
  assumes "utf8_encode s = Some bs"
  shows "quote_plus s = Inr (concat (map plus_byte bs))"
proof (cases "32 \<in> set s")
  case True
  then have "s \<noteq> []" by auto
  with True assms show ?thesis
    by (simp add: quote_plus_def quote_def map_concat comp_def replace_quote_byte)
next
  case False
  with assms have "32 \<notin> set bs" by (simp add: utf8_encode_space)
  then have "\<And>b. b \<in> set bs \<Longrightarrow> quote_byte [] b = plus_byte b"
    by (metis quote_byte_no_space)
  then have "map (quote_byte []) bs = map plus_byte bs"
    by simp
  then have "concat (map (quote_byte []) bs) = concat (map plus_byte bs)"
    by (rule arg_cong)
  with False assms show ?thesis
    by (auto simp: quote_plus_def quote_def)
qed

lemma quote_plus_Inr:
  assumes "quote_plus s = Inr quoted"
  shows "\<exists>bs. utf8_encode s = Some bs \<and> quoted = concat (map plus_byte bs)"
proof (cases "utf8_encode s")
  case None
  then have "s \<noteq> []" by auto
  with None have "quote_plus s = Inl UnicodeEncodeError"
    by (simp add: quote_plus_def quote_def)
  with assms show ?thesis by simp
next
  case (Some bs)
  with quote_plus_eq [OF Some] assms show ?thesis by simp
qed

text \<open>What a computation adds to the events, step by step.\<close>

lemma adds_only_same: "snd (m h) = h \<Longrightarrow> adds_only P m h"
  by (simp add: adds_only_def)

lemma adds_only_one: "snd (m h) = h @ [ev] \<Longrightarrow> P ev \<Longrightarrow> adds_only P m h"
  by (simp add: adds_only_def)

lemma adds_only_bind:
  assumes "adds_only P m h"
    and "\<And>x h'. m h = (Inr x, h') \<Longrightarrow> adds_only P (f x) h'"
  shows "adds_only P (io_bind m f) h"
proof -
  from assms(1) obtain evs where evs: "snd (m h) = h @ evs" "list_all P evs"
    by (auto simp: adds_only_def)
  obtain r h' where mh: "m h = (r, h')" by (cases "m h")
  show ?thesis
  proof (cases r)
    case (Inl err)
    with mh evs show ?thesis by (simp add: adds_only_def io_bind_def)
  next
    case (Inr x)
    with mh assms(2) have "adds_only P (f x) h'" by simp
    then obtain evs' where "snd (f x h') = h' @ evs'" "list_all P evs'"
      by (auto simp: adds_only_def)
    with mh Inr evs have "snd (io_bind m f h) = h @ (evs @ evs')" "list_all P (evs @ evs')"
      by (simp_all add: io_bind_def)
    then show ?thesis unfolding adds_only_def by blast
  qed
qed

lemma adds_only_return: "adds_only P (io_return x) h"
  by (simp add: adds_only_same io_return_def)

lemma adds_only_raise: "adds_only P (io_raise err) h"
  by (simp add: adds_only_same io_raise_def)

lemma adds_only_lift: "adds_only P (io_lift r) h"
  by (simp add: adds_only_same io_lift_def)

lemma adds_only_put: "P (HttpPut url headers payload) \<Longrightarrow> adds_only P (io_put e url headers payload) h"
  by (simp add: adds_only_one io_put_def)

lemma adds_only_get_token: "P (Getpass (S ''GitHub Personal Access Token (used only in this session): '')) \<Longrightarrow>
   adds_only P (get_token e) h"
  using get_token_events [of e h] by (auto simp: adds_only_def)

lemma adds_only_file_exists:
  assumes "quote_plus path = Inr quoted"
    and "P (HttpGet (contents_url owner repo quoted) headers (ref_params branch))"
  shows "adds_only P (file_exists e owner repo path branch headers) h"
  using file_exists_events [of e owner repo path branch headers h] assms
  by (simp add: adds_only_one)

lemma adds_only_bind_lift:
  "(\<And>x. r = Inr x \<Longrightarrow> adds_only P (f x) h) \<Longrightarrow> adds_only P (io_bind (io_lift r) f) h"
  by (rule adds_only_bind [OF adds_only_lift]) (simp add: io_lift_def)

lemma create_or_update_file_requests:
  assumes q: "quote_plus path = Inr quoted"
  shows "adds_only (\<lambda>ev. request_url ev = None \<or> request_url ev = Some (contents_url owner repo quoted))
           (create_or_update_file e owner repo path content_bytes message branch force_update) h"
proof -
  have url: "\<And>x. API_BASE @ S ''/repos/'' @ owner @ S ''/'' @ repo @ S ''/contents/'' @ x =
      contents_url owner repo x"
    by (simp add: contents_url_def)
  show ?thesis
    unfolding create_or_update_file_def Let_def url
    apply (rule adds_only_bind)
     apply (rule adds_only_get_token)
     apply simp
    apply (simp only: q split: option.split list.split)
    apply (intro conjI impI allI adds_only_raise adds_only_bind_lift adds_only_bind
        adds_only_file_exists [OF q] adds_only_put adds_only_return adds_only_lift)
    apply (auto intro!: adds_only_raise adds_only_bind_lift adds_only_bind
        adds_only_put adds_only_return adds_only_lift)
    done
qed

text \<open>
  C10. Both requests go to the URL made of the contents endpoint and \<open>quote_plus\<close> of
  the whole path: the probe sends its GET there, and every request that
  \<open>create_or_update_file\<close> sends (the GET of the probe, the PUT of the write) has that
  URL. The quoted path is the UTF-8 bytes of the path written byte by byte, a space as
  \<open>+\<close> and a slash as \<open>%2F\<close> (for an ASCII path: character by character), so that it
  holds neither a slash nor a space.
\<close>

theorem whole_path_is_quoted:
  assumes "quote_plus path = Inr quoted"
  shows "47 \<notin> set quoted \<and> 32 \<notin> set quoted \<and>
         (\<exists>bs. utf8_encode path = Some bs \<and> quoted = concat (map plus_byte bs)) \<and>
         ((\<forall>c\<in>set path. c < 128) \<longrightarrow> quoted = concat (map plus_byte path)) \<and>
         plus_byte 47 = S ''%2F'' \<and> plus_byte 32 = S ''+'' \<and>
         snd (file_exists e owner repo path branch headers h) =
           h @ [HttpGet (contents_url owner repo quoted) headers (ref_params branch)] \<and>
         (\<exists>evs. snd (create_or_update_file e owner repo path content_bytes message branch
                        force_update h) = h @ evs \<and>
                list_all (\<lambda>ev. request_url ev = None \<or>
                               request_url ev = Some (contents_url owner repo quoted)) evs)"
proof -
  from quote_plus_Inr [OF assms] obtain bs where
    bs: "utf8_encode path = Some bs" "quoted = concat (map plus_byte bs)"
    by blast
  from bs(2) have chars: "47 \<notin> set quoted \<and> 32 \<notin> set quoted"
    using plus_byte_chars by auto
  have ascii: "(\<forall>c\<in>set path. c < 128) \<longrightarrow> quoted = concat (map plus_byte path)"
    using bs by (auto dest: utf8_encode_ascii)
  have probe: "snd (file_exists e owner repo path branch headers h) =
           h @ [HttpGet (contents_url owner repo quoted) headers (ref_params branch)]"
    by (simp add: file_exists_events assms)
  have sent: "\<exists>evs. snd (create_or_update_file e owner repo path content_bytes message branch
                        force_update h) = h @ evs \<and>
                list_all (\<lambda>ev. request_url ev = None \<or>
                               request_url ev = Some (contents_url owner repo quoted)) evs"
    using create_or_update_file_requests [OF assms] by (simp add: adds_only_def)
  from chars bs ascii probe sent show ?thesis
    by (simp add: plus_byte_slash plus_byte_space)
qed

text \<open>A path in a directory, a character beyond ASCII, a lone surrogate.\<close>

lemma quote_plus_example:
  "quote_plus (S ''notes/from colab.txt'') = Inr (S ''notes%2Ffrom+colab.txt'')"
  by (simp add: quote_plus_def quote_def quote_byte_def always_safe_def utf8_bytes_def
      hex_digit_def S_def)

lemma quote_plus_beyond_ascii: "quote_plus [233] = Inr (S ''%C3%A9'')"
  by (simp add: quote_plus_def quote_def quote_byte_def always_safe_def utf8_bytes_def
      hex_digit_def S_def)

lemma quote_plus_surrogate: "quote_plus [56832] = Inl UnicodeEncodeError"
  by (simp add: quote_plus_def quote_def utf8_bytes_def)

theorem whole_path_is_quoted_witness:
  "quote_plus (S ''notes/from colab.txt'') = Inr (S ''notes%2Ffrom+colab.txt'') \<and>
   47 \<notin> set (S ''notes%2Ffrom+colab.txt'') \<and>
   snd (file_exists demo_env (S ''alice'') (S ''myrepo'') (S ''notes/from colab.txt'') None
          (auth_headers (S ''t0ken'')) []) =
     [HttpGet (S ''https://api.github.com/repos/alice/myrepo/contents/notes%2Ffrom+colab.txt'')
        (auth_headers (S ''t0ken'')) []]"
  using whole_path_is_quoted [OF quote_plus_example, of demo_env "S ''alice''" "S ''myrepo''" None
      "auth_headers (S ''t0ken'')" "[]"] quote_plus_example
  by (simp add: contents_url_def API_BASE_def ref_params_def) (simp add: S_def)


section \<open>The orchestrated update\<close>

lemma set_remote_with_token_eq:
  assumes "subprocess_run e h (set_url_command username repo token) (Some repo_dir) = Inr p"
  shows "set_remote_with_token e repo_dir username repo token h =
           ((if returncode p \<noteq> 0
             then Inl (RuntimeError (failure_text (set_url_command username repo token) p))
             else Inr ()),
            h @ [Subprocess (set_url_command username repo token) (Some repo_dir)])"
proof -
  have cmd: "[S ''git'', S ''remote'', S ''set-url'', S ''origin'',
       S ''https://'' @ username @ S '':'' @ token @ S ''@github.com/'' @ username @ S ''/'' @
       repo @ S ''.git''] = set_url_command username repo token"
    by (simp add: set_url_command_def authenticated_url_def)
  show ?thesis
    unfolding set_remote_with_token_def Let_def cmd
    by (simp add: io_bind_def run_cmd_eq [OF assms] io_return_def)
qed

lemma push_branch_eq:
  assumes "subprocess_run e h (push_command branch) (Some repo_dir) = Inr p"
  shows "push_branch e repo_dir branch True h =
           ((if returncode p \<noteq> 0 then Inl (RuntimeError (failure_text (push_command branch) p))
             else Inr ()),
            h @ [Subprocess (push_command branch) (Some repo_dir)])"
proof -
  have cmd: "[S ''git'', S ''push''] @ [S ''--set-upstream'', S ''origin'', branch] =
      push_command branch"
    by (simp add: push_command_def)
  show ?thesis
    unfolding push_branch_def Let_def if_True cmd
    by (simp add: io_bind_def run_cmd_eq [OF assms] io_return_def)
qed

text \<open>
  What follows the commit step does not look at its result: whichever boolean it
  returned, the run rewrites the remote, pushes and asks for the pull request, and the
  boolean only ends up in the result.
\<close>

lemma safe_colab_update_after_commit:
  assumes msg: "message =
      (case commit_message of None \<Rightarrow> default_message (clock e h0) | Some m \<Rightarrow> m)"
    and clone: "clone_repo e username repo token repo_dest h0 = (Inr repo_dir, h1)"
    and config: "configure_git e username (username @ S ''@users.noreply.github.com'') h1 = (Inr (), h2)"
    and branch: "create_branch e repo_dir branch h2 = (Inr (), h3)"
    and demo: "io_write_text e (path_join e repo_dir (S ''colab_update.txt''))
                 (demo_text (clock e h3)) h3 = (Inr (), h4)"
    and commit: "commit_changes e repo_dir message
                   (Some [path_join e repo_dir (S ''colab_update.txt'')]) h4 = (Inr made, h5)"
    and set_url: "subprocess_run e h5 (set_url_command username repo token) (Some repo_dir) = Inr p1"
      "returncode p1 = 0"
    and push: "subprocess_run e (h5 @ [Subprocess (set_url_command username repo token) (Some repo_dir)])
                 (push_command branch) (Some repo_dir) = Inr p2"
      "returncode p2 = 0"
    and post: "requests_post e
                 (h5 @ [Subprocess (set_url_command username repo token) (Some repo_dir),
                        Subprocess (push_command branch) (Some repo_dir)])
                 (pulls_url username repo) (auth_headers token)
                 (pr_payload message branch base pr_body) = Inr r"
      "status_code r = 200 \<or> status_code r = 201"
      "resp_json r = Some (JObj items)"
  shows "safe_colab_update e username repo token branch base commit_message repo_dest h0 =
           (Inr \<lparr>res_repo_dir = repo_dir, res_branch = branch, res_commit_made = made,
                 res_pr_url = (case map_of items (S ''html_url'') of None \<Rightarrow> JNull
                               | Some v \<Rightarrow> v)\<rparr>,
            h5 @ [Subprocess (set_url_command username repo token) (Some repo_dir),
                  Subprocess (push_command branch) (Some repo_dir),
                  HttpPost (pulls_url username repo) (auth_headers token)
                    (pr_payload message branch base pr_body)])"
proof -
  have m: "(case commit_message of
              None \<Rightarrow> S ''Colab: automated update at '' @ isoformat (clock e h0) @ S ''Z''
            | Some m \<Rightarrow> m) = message"
    by (simp add: msg default_message_def split: option.splits)
  have d: "io_write_text e (path_join e repo_dir (S ''colab_update.txt''))
             (S ''Updated from Colab at '' @ isoformat (clock e h3) @ S ''Z'' @ [NL]) h3 = (Inr (), h4)"
    using demo by (simp add: demo_text_def)
  have s: "set_remote_with_token e repo_dir username repo token h5 =
      (Inr (), h5 @ [Subprocess (set_url_command username repo token) (Some repo_dir)])"
    by (simp add: set_remote_with_token_eq [OF set_url(1)] set_url(2))
  have p: "push_branch e repo_dir branch True
       (h5 @ [Subprocess (set_url_command username repo token) (Some repo_dir)]) =
      (Inr (), h5 @ [Subprocess (set_url_command username repo token) (Some repo_dir),
                     Subprocess (push_command branch) (Some repo_dir)])"
    by (simp add: push_branch_eq [OF push(1)] push(2))
  have pr: "create_pull_request e username repo token branch base message
       (S ''Automated PR created from Colab.'')
       (h5 @ [Subprocess (set_url_command username repo token) (Some repo_dir),
              Subprocess (push_command branch) (Some repo_dir)]) =
      (Inr (JObj items),
       h5 @ [Subprocess (set_url_command username repo token) (Some repo_dir),
             Subprocess (push_command branch) (Some repo_dir),
             HttpPost (pulls_url username repo) (auth_headers token)
               (pr_payload message branch base pr_body)])"
    using create_pull_request_eq [OF post(1) [unfolded pr_body_def]] post(2,3)
    by (auto simp: pr_body_def)
  show ?thesis
    unfolding safe_colab_update_def Let_def
    by (simp add: io_bind_def io_return_def m clone config branch d commit s p pr io_lift_def)
qed

text \<open>
  C1. In a run of \<open>safe_colab_update\<close> whose first steps succeed and whose commit step
  returns \<open>False\<close>, the run goes on: it rewrites the remote URL with the credential,
  pushes the branch and posts the pull request, in this order and after everything done
  before; when these three succeed (exit status zero twice, then status 200 or 201 with
  a JSON object), it returns the repository location, the branch name, \<open>commit_made\<close>
  false and the \<open>html_url\<close> of the response.
\<close>

theorem update_without_commit:
  assumes "message =
      (case commit_message of None \<Rightarrow> default_message (clock e h0) | Some m \<Rightarrow> m)"
    and "clone_repo e username repo token repo_dest h0 = (Inr repo_dir, h1)"
    and "configure_git e username (username @ S ''@users.noreply.github.com'') h1 = (Inr (), h2)"
    and "create_branch e repo_dir branch h2 = (Inr (), h3)"
    and "io_write_text e (path_join e repo_dir (S ''colab_update.txt''))
           (demo_text (clock e h3)) h3 = (Inr (), h4)"
    and "commit_changes e repo_dir message
           (Some [path_join e repo_dir (S ''colab_update.txt'')]) h4 = (Inr False, h5)"
    and "subprocess_run e h5 (set_url_command username repo token) (Some repo_dir) = Inr p1"
    and "returncode p1 = 0"
    and "subprocess_run e (h5 @ [Subprocess (set_url_command username repo token) (Some repo_dir)])
           (push_command branch) (Some repo_dir) = Inr p2"
    and "returncode p2 = 0"
    and "requests_post e
           (h5 @ [Subprocess (set_url_command username repo token) (Some repo_dir),
                  Subprocess (push_command branch) (Some repo_dir)])
           (pulls_url username repo) (auth_headers token)
           (pr_payload message branch base pr_body) = Inr r"
    and "status_code r = 200 \<or> status_code r = 201"
    and "resp_json r = Some (JObj items)"
  shows "safe_colab_update e username repo token branch base commit_message repo_dest h0 =
           (Inr \<lparr>res_repo_dir = repo_dir, res_branch = branch, res_commit_made = False,
                 res_pr_url = (case map_of items (S ''html_url'') of None \<Rightarrow> JNull
                               | Some v \<Rightarrow> v)\<rparr>,
            h5 @ [Subprocess (set_url_command username repo token) (Some repo_dir),
                  Subprocess (push_command branch) (Some repo_dir),
                  HttpPost (pulls_url username repo) (auth_headers token)
                    (pr_payload message branch base pr_body)])"
  using assms by (rule safe_colab_update_after_commit)

theorem update_without_commit_witness:
  "fst (safe_colab_update demo_env (S ''u'') (S ''r'') (S ''t0ken'') (S ''colab/auto-update'')
          (S ''main'') (Some (S ''update'')) None []) =
     Inr \<lparr>res_repo_dir = S ''/content/r'', res_branch = S ''colab/auto-update'',
           res_commit_made = False, res_pr_url = JStr (S ''https://github.com/u/r/pull/1'')\<rparr> \<and>
   drop 7 (snd (safe_colab_update demo_env (S ''u'') (S ''r'') (S ''t0ken'')
          (S ''colab/auto-update'') (S ''main'') (Some (S ''update'')) None [])) =
     [Subprocess (set_url_command (S ''u'') (S ''r'') (S ''t0ken'')) (Some (S ''/content/r'')),
      Subprocess (push_command (S ''colab/auto-update'')) (Some (S ''/content/r'')),
      HttpPost (pulls_url (S ''u'') (S ''r'')) (auth_headers (S ''t0ken''))
        (pr_payload (S ''update'') (S ''colab/auto-update'') (S ''main'') pr_body)]"
proof -
  let ?u = "S ''u''" and ?r = "S ''r''" and ?t = "S ''t0ken''" and ?b = "S ''colab/auto-update''"
  let ?d = "S ''/content/r''"
  let ?f = "path_join demo_env ?d (S ''colab_update.txt'')"
  let ?h1 = "[Subprocess [S ''git'', S ''clone'', authenticated_url ?u ?r ?t, ?d] None]"
  let ?h2 = "?h1 @ [Subprocess [S ''git'', S ''config'', S ''--global'', S ''user.name'', ?u] None,
                    Subprocess [S ''git'', S ''config'', S ''--global'', S ''user.email'',
                                ?u @ S ''@users.noreply.github.com''] None]"
  let ?h3 = "?h2 @ [Subprocess [S ''git'', S ''checkout'', S ''-b'', ?b] (Some ?d)]"
  let ?h4 = "?h3 @ [WriteText ?f (demo_text (clock demo_env ?h3))]"
  let ?h5 = "?h4 @ [Subprocess (add_command (Some [?f])) (Some ?d),
                    Subprocess (commit_command (S ''update'')) (Some ?d)]"
  let ?answer = "answered 201 [] (Some (JObj [(S ''html_url'', JStr (S ''https://github.com/u/r/pull/1''))]))"
  have run: "\<And>h cmd cwd. subprocess_run demo_env h cmd cwd = Inr (nothing_to_commit_git cmd)"
    by (simp add: demo_env_def subprocess_run_scripted)
  have ok: "\<And>x y rest. x \<noteq> S ''commit'' \<Longrightarrow> nothing_to_commit_git (S ''git'' # x # rest) = exited 0 []"
    by (simp add: nothing_to_commit_git_def)
  have words: "S ''clone'' \<noteq> S ''commit''" "S ''config'' \<noteq> S ''commit''"
    "S ''checkout'' \<noteq> S ''commit''" "S ''add'' \<noteq> S ''commit''" "S ''remote'' \<noteq> S ''commit''"
    "S ''push'' \<noteq> S ''commit''"
    by (simp_all add: S_def)
  have zero: "returncode (exited 0 []) = 0"
    by (simp add: exited_def)
  have msg: "S ''update'' =
      (case Some (S ''update'') of None \<Rightarrow> default_message (clock demo_env []) | Some m \<Rightarrow> m)"
    by simp
  have clone: "clone_repo demo_env ?u ?r ?t None [] = (Inr ?d, ?h1)"
    by (simp add: clone_repo_def Let_def io_bind_def io_return_def run_cmd_eq [OF run] ok words zero
        authenticated_url_def)
      (simp add: demo_env_def scripted_env_def S_def)
  have config: "configure_git demo_env ?u (?u @ S ''@users.noreply.github.com'') ?h1 = (Inr (), ?h2)"
    by (simp add: configure_git_def io_bind_def io_return_def run_cmd_eq [OF run] ok words zero)
  have branch: "create_branch demo_env ?d ?b ?h2 = (Inr (), ?h3)"
    by (simp add: create_branch_def io_bind_def io_return_def run_cmd_eq [OF run] ok words zero)
  have demo: "io_write_text demo_env ?f (demo_text (clock demo_env ?h3)) ?h3 = (Inr (), ?h4)"
    by (simp add: io_write_text_def demo_env_def scripted_env_def)
  have staged: "run_cmd demo_env (add_command (Some [?f])) (Some ?d) True ?h4 =
      (Inr (exited 0 []), ?h4 @ [Subprocess (add_command (Some [?f])) (Some ?d)])"
    by (simp add: run_cmd_eq [OF run] add_command_def ok words zero)
  have committed: "subprocess_run demo_env (?h4 @ [Subprocess (add_command (Some [?f])) (Some ?d)])
      (commit_command (S ''update'')) (Some ?d) =
      Inr (exited 1 (S ''nothing to commit, working tree clean''))"
    by (simp add: run nothing_to_commit_git_def commit_command_def)
  have found: "sublist (S ''nothing to commit'')
      (failure_text (commit_command (S ''update''))
         (exited 1 (S ''nothing to commit, working tree clean'')))"
    unfolding py_in_sublist [symmetric]
    by (simp add: failure_text_def commit_command_def exited_def S_def NL_def)
  have one: "returncode (exited 1 (S ''nothing to commit, working tree clean'')) \<noteq> 0"
    by (simp add: exited_def)
  have commit: "commit_changes demo_env ?d (S ''update'') (Some [?f]) ?h4 = (Inr False, ?h5)"
    using commit_changes_eq [OF staged committed] found one by simp
  have set_url: "subprocess_run demo_env ?h5 (set_url_command ?u ?r ?t) (Some ?d) = Inr (exited 0 [])"
    by (simp add: run set_url_command_def ok words)
  have push: "subprocess_run demo_env (?h5 @ [Subprocess (set_url_command ?u ?r ?t) (Some ?d)])
      (push_command ?b) (Some ?d) = Inr (exited 0 [])"
    by (simp add: run push_command_def ok words)
  have post: "requests_post demo_env
      (?h5 @ [Subprocess (set_url_command ?u ?r ?t) (Some ?d), Subprocess (push_command ?b) (Some ?d)])
      (pulls_url ?u ?r) (auth_headers ?t) (pr_payload (S ''update'') ?b (S ''main'') pr_body) =
      Inr ?answer"
    by (simp add: demo_env_def requests_post_scripted)
  have status: "status_code ?answer = 200 \<or> status_code ?answer = 201"
    by (simp add: answered_sel)
  have parsed: "resp_json ?answer = Some (JObj [(S ''html_url'', JStr (S ''https://github.com/u/r/pull/1''))])"
    by (simp add: answered_sel)
  from update_without_commit [OF msg clone config branch demo commit set_url zero push zero post
      status parsed]
  show ?thesis
    by simp
qed

end
